theory Spec2Isabelle
  imports Main
begin

section \<open>Data model\<close>

text \<open>
  The adapter of \<^verbatim>\<open>pkg/controller/projectclaim/customresourceadapter.go\<close> works on
  the API types of \<^verbatim>\<open>pkg/apis/gcp/v1alpha1\<close> and of the Kubernetes libraries. Only the
  fields the adapter reads or writes are kept. Go string types are \<^typ>\<open>string\<close>, a
  \<^verbatim>\<open>*metav1.Time\<close> is a \<^typ>\<open>nat option\<close> (\<^verbatim>\<open>nil\<close> is \<^term>\<open>None\<close>), and a slice
  that the code compares with \<^verbatim>\<open>nil\<close> is a \<^typ>\<open>'a list option\<close>. The legal-entity
  payload is opaque to the adapter and is the type parameter \<open>'le\<close>.
\<close>

type_synonym Time = nat

text \<open>
  Modelled from the spec: the errors of the store (sections 6 and 7). The adapter only
  asks whether an error is the not-found error (\<^verbatim>\<open>errors.IsNotFound\<close>); every other
  error is passed on unchanged.
\<close>

datatype error = NotFound | Conflict | Transient string

fun IsNotFound :: "error \<Rightarrow> bool" where
  "IsNotFound NotFound = True"
| "IsNotFound _ = False"

record NamespacedName =
  nn_Name :: string
  nn_Namespace :: string

record ObjectMeta =
  Name :: string
  Namespace :: string
  Finalizers :: "string list"
  DeletionTimestamp :: "Time option"

datatype ConditionStatus = ConditionTrue | ConditionFalse | ConditionUnknown

type_synonym ProjectClaimConditionType = string

text \<open>
  Modelled from the spec: the tracked condition kind and the two phases the adapter
  gates are constants of the API package, which is not under src/. The theorems below use
  of their values only that the two phases differ and that neither is the empty string.
\<close>

definition ClaimConditionError :: ProjectClaimConditionType where
  "ClaimConditionError = ''Error''"

type_synonym ClaimStatus = string

definition ClaimStatusPending :: ClaimStatus where
  "ClaimStatusPending = ''Pending''"

definition ClaimStatusPendingProject :: ClaimStatus where
  "ClaimStatusPendingProject = ''PendingProject''"

record ProjectClaimCondition =
  cond_Type :: ProjectClaimConditionType
  cond_Status :: ConditionStatus
  cond_Reason :: string
  cond_Message :: string
  cond_LastTransitionTime :: Time
  cond_LastProbeTime :: Time

record 'le ProjectClaimSpec =
  pcs_LegalEntity :: 'le
  pcs_ProjectReferenceCRLink :: NamespacedName

record ProjectClaimStatus =
  State :: ClaimStatus
  Conditions :: "ProjectClaimCondition list option"

record 'le ProjectClaim =
  pc_ObjectMeta :: ObjectMeta
  pc_Spec :: "'le ProjectClaimSpec"
  pc_Status :: ProjectClaimStatus

record 'le ProjectReferenceSpec =
  prs_GCPProjectID :: string
  prs_ProjectClaimCRLink :: NamespacedName
  prs_LegalEntity :: 'le

record 'le ProjectReference =
  pr_ObjectMeta :: ObjectMeta
  pr_Spec :: "'le ProjectReferenceSpec"

datatype ObjectState = ObjectModified | ObjectUnchanged

definition ProjectClaimFinalizer :: string where
  "ProjectClaimFinalizer = ''finalizer.gcp.managed.openshift.io''"

subsection \<open>The store client\<close>

text \<open>
  \<^verbatim>\<open>client.Client\<close> is an interface of the controller runtime. The adapter sends it five
  kinds of call and looks only at the error each returns (the object that \<^verbatim>\<open>Get\<close> fills
  in is never read). A client is therefore the list of calls it has received so far
  together with a function that answers the next call given that list; any
  deterministic store, failing or not, is such a function. The claim or reference carried
  by a call is the value the adapter held when it made the call.
\<close>

datatype 'le call =
    CallGet NamespacedName
  | CallCreate "'le ProjectReference"
  | CallUpdate "'le ProjectClaim"
  | CallStatusUpdate "'le ProjectClaim"
  | CallDelete "'le ProjectReference"

record 'le client =
  history :: "'le call list"
  respond :: "'le call list \<Rightarrow> 'le call \<Rightarrow> error option"

definition invoke :: "'le client \<Rightarrow> 'le call \<Rightarrow> error option \<times> 'le client" where
  "invoke cl x = (respond cl (history cl) x, cl\<lparr>history := history cl @ [x]\<rparr>)"

text \<open>The logger of the adapter only prints; it is left out.\<close>

record 'le CustomResourceAdapter =
  projectClaim :: "'le ProjectClaim"
  client :: "'le client"
  projectReference :: "'le ProjectReference"

section \<open>Accessors and helpers\<close>

definition GetName :: "'le ProjectClaim \<Rightarrow> string" where
  "GetName pc = Name (pc_ObjectMeta pc)"

definition GetNamespace :: "'le ProjectClaim \<Rightarrow> string" where
  "GetNamespace pc = Namespace (pc_ObjectMeta pc)"

definition GetFinalizers :: "'le ProjectClaim \<Rightarrow> string list" where
  "GetFinalizers pc = Finalizers (pc_ObjectMeta pc)"

definition SetFinalizers :: "'le ProjectClaim \<Rightarrow> string list \<Rightarrow> 'le ProjectClaim" where
  "SetFinalizers pc fs = pc\<lparr>pc_ObjectMeta := (pc_ObjectMeta pc)\<lparr>Finalizers := fs\<rparr>\<rparr>"

text \<open>
  Modelled from the spec: \<^verbatim>\<open>util.Contains\<close> and \<^verbatim>\<open>util.Filter\<close> belong to an imported
  package. \<open>Contains\<close> tells whether a string occurs in a list; \<open>Filter\<close> drops every
  occurrence of a string and leaves all other entries untouched, in their order.
\<close>

fun Contains :: "string list \<Rightarrow> string \<Rightarrow> bool" where
  "Contains [] strToSearch = False"
| "Contains (item # rest) strToSearch = (if item = strToSearch then True else Contains rest strToSearch)"

fun Filter :: "string list \<Rightarrow> string \<Rightarrow> string list" where
  "Filter [] strToFilter = []"
| "Filter (item # rest) strToFilter =
     (if item \<noteq> strToFilter then item # Filter rest strToFilter else Filter rest strToFilter)"

definition referenceKey :: "'le ProjectReference \<Rightarrow> NamespacedName" where
  "referenceKey r = \<lparr>nn_Name = Name (pr_ObjectMeta r), nn_Namespace = Namespace (pr_ObjectMeta r)\<rparr>"

definition setStatus :: "'le CustomResourceAdapter \<Rightarrow> ProjectClaimStatus \<Rightarrow> 'le CustomResourceAdapter" where
  "setStatus c st = c\<lparr>projectClaim := (projectClaim c)\<lparr>pc_Status := st\<rparr>\<rparr>"

definition setConditions ::
  "'le CustomResourceAdapter \<Rightarrow> ProjectClaimCondition list option \<Rightarrow> 'le CustomResourceAdapter" where
  "setConditions c cs = setStatus c ((pc_Status (projectClaim c))\<lparr>Conditions := cs\<rparr>)"

definition call_client ::
  "'le CustomResourceAdapter \<Rightarrow> 'le call \<Rightarrow> error option \<times> 'le CustomResourceAdapter" where
  "call_client c x = (case invoke (client c) x of (err, cl) \<Rightarrow> (err, c\<lparr>client := cl\<rparr>))"

text \<open>A slice read as a sequence: the \<^verbatim>\<open>nil\<close> slice has no elements.\<close>

fun elems :: "'a list option \<Rightarrow> 'a list" where
  "elems None = []"
| "elems (Some xs) = xs"

section \<open>The adapter\<close>

text \<open>
  \<open>newMatchingProjectReference\<close> takes the namespace constant of the API package
  (\<^verbatim>\<open>gcpv1alpha1.ProjectReferenceNamespace\<close>, not under src/) as its first argument.
\<close>

definition newMatchingProjectReference :: "string \<Rightarrow> 'le ProjectClaim \<Rightarrow> 'le ProjectReference" where
  "newMatchingProjectReference ProjectReferenceNamespace pc =
     \<lparr>pr_ObjectMeta =
        \<lparr>Name = GetNamespace pc @ ''-'' @ GetName pc,
         Namespace = ProjectReferenceNamespace,
         Finalizers = [],
         DeletionTimestamp = None\<rparr>,
      pr_Spec =
        \<lparr>prs_GCPProjectID = '''',
         prs_ProjectClaimCRLink = \<lparr>nn_Name = GetName pc, nn_Namespace = GetNamespace pc\<rparr>,
         prs_LegalEntity = pcs_LegalEntity (pc_Spec pc)\<rparr>\<rparr>"

definition NewCustomResourceAdapter ::
  "string \<Rightarrow> 'le ProjectClaim \<Rightarrow> 'le client \<Rightarrow> 'le CustomResourceAdapter" where
  "NewCustomResourceAdapter ProjectReferenceNamespace pc cl =
     \<lparr>projectClaim = pc, client = cl,
      projectReference = newMatchingProjectReference ProjectReferenceNamespace pc\<rparr>"

definition ProjectReferenceExists ::
  "'le CustomResourceAdapter \<Rightarrow> (bool \<times> error option) \<times> 'le CustomResourceAdapter" where
  "ProjectReferenceExists c =
     (case call_client c (CallGet (referenceKey (projectReference c))) of
        (Some err, c') \<Rightarrow> if IsNotFound err then ((False, None), c') else ((False, Some err), c')
      | (None, c') \<Rightarrow> ((True, None), c'))"

definition IsProjectClaimDeletion :: "'le CustomResourceAdapter \<Rightarrow> bool" where
  "IsProjectClaimDeletion c = (DeletionTimestamp (pc_ObjectMeta (projectClaim c)) \<noteq> None)"

definition IsProjectReferenceDeletion :: "'le CustomResourceAdapter \<Rightarrow> bool" where
  "IsProjectReferenceDeletion c = (DeletionTimestamp (pr_ObjectMeta (projectReference c)) \<noteq> None)"

definition EnsureFinalizerDeleted ::
  "'le CustomResourceAdapter \<Rightarrow> error option \<times> 'le CustomResourceAdapter" where
  "EnsureFinalizerDeleted c =
     (let finalizers = GetFinalizers (projectClaim c) in
      if Contains finalizers ProjectClaimFinalizer then
        (let c' = c\<lparr>projectClaim := SetFinalizers (projectClaim c) (Filter finalizers ProjectClaimFinalizer)\<rparr>
         in call_client c' (CallUpdate (projectClaim c')))
      else (None, c))"

definition FinalizeProjectClaim ::
  "'le CustomResourceAdapter \<Rightarrow> (ObjectState \<times> error option) \<times> 'le CustomResourceAdapter" where
  "FinalizeProjectClaim c =
     (case ProjectReferenceExists c of
        ((_, Some err), c1) \<Rightarrow> ((ObjectUnchanged, Some err), c1)
      | ((projectReferenceExists, None), c1) \<Rightarrow>
          (let projectReferenceDeletionRequested = IsProjectReferenceDeletion c1 in
           case (if projectReferenceExists \<and> \<not> projectReferenceDeletionRequested
                 then call_client c1 (CallDelete (projectReference c1))
                 else (None, c1)) of
             (Some err, c2) \<Rightarrow> ((ObjectUnchanged, Some err), c2)
           | (None, c2) \<Rightarrow>
               if \<not> projectReferenceExists then
                 (case EnsureFinalizerDeleted c2 of
                    (Some err, c3) \<Rightarrow> ((ObjectUnchanged, Some err), c3)
                  | (None, c3) \<Rightarrow> ((ObjectModified, None), c3))
               else ((ObjectUnchanged, None), c2)))"

definition EnsureProjectClaimInitialized ::
  "'le CustomResourceAdapter \<Rightarrow> (ObjectState \<times> error option) \<times> 'le CustomResourceAdapter" where
  "EnsureProjectClaimInitialized c =
     (if Conditions (pc_Status (projectClaim c)) = None then
        (let c' = setConditions c (Some []) in
         case call_client c' (CallStatusUpdate (projectClaim c')) of
           (Some err, c'') \<Rightarrow> ((ObjectUnchanged, Some err), c'')
         | (None, c'') \<Rightarrow> ((ObjectModified, None), c''))
      else ((ObjectUnchanged, None), c))"

definition EnsureProjectReferenceLink ::
  "'le CustomResourceAdapter \<Rightarrow> (ObjectState \<times> error option) \<times> 'le CustomResourceAdapter" where
  "EnsureProjectReferenceLink c =
     (let expectedLink = referenceKey (projectReference c) in
      if pcs_ProjectReferenceCRLink (pc_Spec (projectClaim c)) = expectedLink then
        ((ObjectUnchanged, None), c)
      else
        (let c' = c\<lparr>projectClaim :=
                     (projectClaim c)\<lparr>pc_Spec :=
                        (pc_Spec (projectClaim c))\<lparr>pcs_ProjectReferenceCRLink := expectedLink\<rparr>\<rparr>\<rparr>
         in case call_client c' (CallUpdate (projectClaim c')) of
              (Some err, c'') \<Rightarrow> ((ObjectUnchanged, Some err), c'')
            | (None, c'') \<Rightarrow> ((ObjectModified, None), c'')))"

definition EnsureFinalizer ::
  "'le CustomResourceAdapter \<Rightarrow> (ObjectState \<times> error option) \<times> 'le CustomResourceAdapter" where
  "EnsureFinalizer c =
     (if \<not> Contains (GetFinalizers (projectClaim c)) ProjectClaimFinalizer then
        (let c' = c\<lparr>projectClaim :=
                     SetFinalizers (projectClaim c)
                       (GetFinalizers (projectClaim c) @ [ProjectClaimFinalizer])\<rparr>
         in case call_client c' (CallUpdate (projectClaim c')) of
              (Some err, c'') \<Rightarrow> ((ObjectUnchanged, Some err), c'')
            | (None, c'') \<Rightarrow> ((ObjectModified, None), c''))
      else ((ObjectUnchanged, None), c))"

definition EnsureProjectReferenceExists ::
  "'le CustomResourceAdapter \<Rightarrow> error option \<times> 'le CustomResourceAdapter" where
  "EnsureProjectReferenceExists c =
     (case ProjectReferenceExists c of
        ((_, Some err), c1) \<Rightarrow> (Some err, c1)
      | ((projectReferenceExists, None), c1) \<Rightarrow>
          if \<not> projectReferenceExists then call_client c1 (CallCreate (projectReference c1))
          else (None, c1))"

definition StatusUpdate ::
  "'le CustomResourceAdapter \<Rightarrow> error option \<times> 'le CustomResourceAdapter" where
  "StatusUpdate c =
     (case call_client c (CallStatusUpdate (projectClaim c)) of
        (Some err, c') \<Rightarrow> (Some err, c')
      | (None, c') \<Rightarrow> (None, c'))"

definition EnsureProjectClaimState ::
  "'le CustomResourceAdapter \<Rightarrow> ClaimStatus \<Rightarrow> error option \<times> 'le CustomResourceAdapter" where
  "EnsureProjectClaimState c state =
     (if State (pc_Status (projectClaim c)) = state then (None, c)
      else if state = ClaimStatusPending \<and> State (pc_Status (projectClaim c)) \<noteq> '''' then (None, c)
      else if state = ClaimStatusPendingProject
              \<and> State (pc_Status (projectClaim c)) \<noteq> ClaimStatusPending then (None, c)
      else StatusUpdate (setStatus c ((pc_Status (projectClaim c))\<lparr>State := state\<rparr>)))"

text \<open>
  \<open>FindProjectClaimCondition\<close> returns a pointer into the condition slice of the claim;
  the model returns the index it points at. \<open>findFrom\<close> is the loop, entered at index
  \<open>i\<close>.
\<close>

fun findFrom :: "nat \<Rightarrow> ProjectClaimCondition list \<Rightarrow> nat option" where
  "findFrom i [] = None"
| "findFrom i (condition # rest) =
     (if cond_Type condition = ClaimConditionError then Some i else findFrom (Suc i) rest)"

definition FindProjectClaimCondition :: "'le CustomResourceAdapter \<Rightarrow> nat option" where
  "FindProjectClaimCondition c = findFrom 0 (elems (Conditions (pc_Status (projectClaim c))))"

text \<open>
  \<open>SetProjectClaimCondition\<close> reads the clock once (\<^verbatim>\<open>metav1.Now()\<close>); the reading is
  the argument \<open>now\<close>. The writes through the pointer are the update of the slice at the
  index found.
\<close>

definition SetProjectClaimCondition ::
  "'le CustomResourceAdapter \<Rightarrow> ConditionStatus \<Rightarrow> string \<Rightarrow> string \<Rightarrow> Time
     \<Rightarrow> error option \<times> 'le CustomResourceAdapter" where
  "SetProjectClaimCondition c status reason message now =
     (let conditions = Conditions (pc_Status (projectClaim c));
          conditionType = ClaimConditionError in
      case FindProjectClaimCondition c of
        None \<Rightarrow>
          if status = ConditionTrue then
            StatusUpdate (setConditions c (Some (elems conditions @
              [\<lparr>cond_Type = conditionType, cond_Status = status, cond_Reason = reason,
                cond_Message = message, cond_LastTransitionTime = now,
                cond_LastProbeTime = now\<rparr>])))
          else StatusUpdate c
      | Some i \<Rightarrow>
          (let existingCondition = elems conditions ! i;
               e1 = (if cond_Status existingCondition \<noteq> status
                     then existingCondition\<lparr>cond_LastTransitionTime := now\<rparr>
                     else existingCondition);
               e2 = e1\<lparr>cond_Status := status, cond_Reason := reason,
                       cond_Message := message, cond_LastProbeTime := now\<rparr>
           in StatusUpdate (setConditions c (Some ((elems conditions)[i := e2])))))"

section \<open>Observing a run\<close>

text \<open>
  \<open>answer c pre x\<close> is what the store of adapter \<open>c\<close> answers to the call \<open>x\<close> once the
  adapter has first made the calls \<open>pre\<close>; \<open>lookupResult c\<close> is its answer to the lookup
  with which \<open>ProjectReferenceExists\<close> starts. \<open>sent c xs\<close> is \<open>c\<close> after the calls \<open>xs\<close>
  have gone out. \<open>errorConditions\<close> are the entries of the tracked kind in a claim's
  condition list, and \<open>updatedCondition\<close> is what \<open>SetProjectClaimCondition\<close> writes over
  an entry it found.
\<close>

definition answer :: "'le CustomResourceAdapter \<Rightarrow> 'le call list \<Rightarrow> 'le call \<Rightarrow> error option" where
  "answer c pre x = respond (client c) (history (client c) @ pre) x"

definition sent :: "'le CustomResourceAdapter \<Rightarrow> 'le call list \<Rightarrow> 'le CustomResourceAdapter" where
  "sent c xs = c\<lparr>client := (client c)\<lparr>history := history (client c) @ xs\<rparr>\<rparr>"

definition lookupResult :: "'le CustomResourceAdapter \<Rightarrow> error option" where
  "lookupResult c = answer c [] (CallGet (referenceKey (projectReference c)))"

definition errorConditions :: "'le ProjectClaim \<Rightarrow> ProjectClaimCondition list" where
  "errorConditions pc =
     filter (\<lambda>e. cond_Type e = ClaimConditionError) (elems (Conditions (pc_Status pc)))"

definition updatedCondition ::
  "ProjectClaimCondition \<Rightarrow> ConditionStatus \<Rightarrow> string \<Rightarrow> string \<Rightarrow> Time \<Rightarrow> ProjectClaimCondition" where
  "updatedCondition e status reason message now =
     e\<lparr>cond_LastTransitionTime := (if cond_Status e \<noteq> status then now else cond_LastTransitionTime e),
       cond_Status := status, cond_Reason := reason, cond_Message := message,
       cond_LastProbeTime := now\<rparr>"

section \<open>Example claims and stores\<close>

text \<open>
  A claim in namespace \<open>ns\<close> with name \<open>n\<close> and finalizers \<open>fs\<close>, on which deletion has
  been requested, and a few stores: one where the reference exists and every write
  succeeds, one where the reference is gone, one that rejects every update of the claim,
  one that is unreachable, and two in which the reference is gone as soon as a delete has
  been received (the second of them rejects every update of the claim).
\<close>

definition exampleClaim :: "string \<Rightarrow> string \<Rightarrow> string list \<Rightarrow> string ProjectClaim" where
  "exampleClaim ns n fs =
     \<lparr>pc_ObjectMeta = \<lparr>Name = n, Namespace = ns, Finalizers = fs, DeletionTimestamp = Some 3\<rparr>,
      pc_Spec = \<lparr>pcs_LegalEntity = ''acme'',
                 pcs_ProjectReferenceCRLink = \<lparr>nn_Name = '''', nn_Namespace = ''''\<rparr>\<rparr>,
      pc_Status = \<lparr>State = '''', Conditions = None\<rparr>\<rparr>"

fun storeHealthy :: "'le call list \<Rightarrow> 'le call \<Rightarrow> error option" where
  "storeHealthy past x = None"

fun storeGone :: "'le call list \<Rightarrow> 'le call \<Rightarrow> error option" where
  "storeGone past (CallGet k) = Some NotFound"
| "storeGone past x = None"

fun storeConflict :: "'le call list \<Rightarrow> 'le call \<Rightarrow> error option" where
  "storeConflict past (CallUpdate pc) = Some Conflict"
| "storeConflict past (CallStatusUpdate pc) = Some Conflict"
| "storeConflict past x = None"

fun storeDown :: "'le call list \<Rightarrow> 'le call \<Rightarrow> error option" where
  "storeDown past x = Some (Transient ''timeout'')"

fun isDelete :: "'le call \<Rightarrow> bool" where
  "isDelete (CallDelete r) = True"
| "isDelete x = False"

fun storeDeleting :: "'le call list \<Rightarrow> 'le call \<Rightarrow> error option" where
  "storeDeleting past (CallGet k) = (if list_ex isDelete past then Some NotFound else None)"
| "storeDeleting past x = None"

fun storeDeletingConflict :: "'le call list \<Rightarrow> 'le call \<Rightarrow> error option" where
  "storeDeletingConflict past (CallGet k) = (if list_ex isDelete past then Some NotFound else None)"
| "storeDeletingConflict past (CallUpdate pc) = Some Conflict"
| "storeDeletingConflict past x = None"

definition exampleAdapter ::
  "string list \<Rightarrow> (string call list \<Rightarrow> string call \<Rightarrow> error option) \<Rightarrow> string CustomResourceAdapter" where
  "exampleAdapter fs store =
     NewCustomResourceAdapter ''gcp-project-operator'' (exampleClaim ''team'' ''claim'' fs)
       \<lparr>history = [], respond = store\<rparr>"

text \<open>
  A store that keeps track of the references it holds: a reference is present under a
  key once it has been created and until it is deleted. Lookup and delete answer
  not-found for a key that is not present, create is rejected for a key that is.
  \<open>claimAdapter\<close> is the adapter of a claim with the given namespace and name on a given
  client. The four clients after it are the stages of one run on that store: the claim
  \<open>a-b/c\<close> ensures its reference, then the claim \<open>a/b-c\<close> ensures its reference and is
  finalized.
\<close>

fun presentAfter :: "NamespacedName \<Rightarrow> bool \<Rightarrow> 'le call list \<Rightarrow> bool" where
  "presentAfter k b [] = b"
| "presentAfter k b (CallCreate r # past) =
     presentAfter k (if referenceKey r = k then True else b) past"
| "presentAfter k b (CallDelete r # past) =
     presentAfter k (if referenceKey r = k then False else b) past"
| "presentAfter k b (x # past) = presentAfter k b past"

fun storeKeyed :: "'le call list \<Rightarrow> 'le call \<Rightarrow> error option" where
  "storeKeyed past (CallGet k) = (if presentAfter k False past then None else Some NotFound)"
| "storeKeyed past (CallCreate r) =
     (if presentAfter (referenceKey r) False past then Some Conflict else None)"
| "storeKeyed past (CallDelete r) =
     (if presentAfter (referenceKey r) False past then None else Some NotFound)"
| "storeKeyed past x = None"

definition claimAdapter ::
  "string \<Rightarrow> string \<Rightarrow> string client \<Rightarrow> string CustomResourceAdapter" where
  "claimAdapter ns n cl =
     NewCustomResourceAdapter ''gcp-project-operator'' (exampleClaim ns n [ProjectClaimFinalizer]) cl"

definition keyedClient :: "string client" where
  "keyedClient = \<lparr>history = [], respond = storeKeyed\<rparr>"

definition afterFirstClaim :: "string client" where
  "afterFirstClaim =
     client (snd (EnsureProjectReferenceExists (claimAdapter ''a-b'' ''c'' keyedClient)))"

definition afterSecondClaim :: "string client" where
  "afterSecondClaim =
     client (snd (EnsureProjectReferenceExists (claimAdapter ''a'' ''b-c'' afterFirstClaim)))"

definition afterSecondFinalize :: "string client" where
  "afterSecondFinalize =
     client (snd (FinalizeProjectClaim (claimAdapter ''a'' ''b-c'' afterSecondClaim)))"

section \<open>Basic facts\<close>

lemma call_client_eq: "call_client c x = (answer c [] x, sent c [x])"
  by (simp add: call_client_def invoke_def answer_def sent_def)

lemma sent_simps [simp]:
  "projectClaim (sent c xs) = projectClaim c"
  "projectReference (sent c xs) = projectReference c"
  "history (client (sent c xs)) = history (client c) @ xs"
  "respond (client (sent c xs)) = respond (client c)"
  by (simp_all add: sent_def)

lemma sent_sent [simp]: "sent (sent c xs) ys = sent c (xs @ ys)"
  by (simp add: sent_def)

lemma sent_Nil [simp]: "sent c [] = c"
  by (simp add: sent_def)

lemma answer_sent [simp]: "answer (sent c xs) pre x = answer c (xs @ pre) x"
  by (simp add: answer_def)

lemma IsProjectReferenceDeletion_sent [simp]:
  "IsProjectReferenceDeletion (sent c xs) = IsProjectReferenceDeletion c"
  by (simp add: IsProjectReferenceDeletion_def)

lemma Contains_iff: "Contains xs s \<longleftrightarrow> s \<in> set xs"
  by (induction xs) auto

lemma Filter_eq: "Filter xs s = filter (\<lambda>item. item \<noteq> s) xs"
  by (induction xs) auto

lemma Filter_absent: "\<not> Contains fs s \<Longrightarrow> Filter fs s = fs"
  by (induction fs) (auto split: if_splits)

lemma not_Contains_Filter: "\<not> Contains (Filter fs s) s"
  by (induction fs) auto

lemma GetFinalizers_SetFinalizers [simp]: "GetFinalizers (SetFinalizers pc fs) = fs"
  by (simp add: GetFinalizers_def SetFinalizers_def)

lemma SetFinalizers_fields [simp]:
  "pc_Spec (SetFinalizers pc fs) = pc_Spec pc"
  "pc_Status (SetFinalizers pc fs) = pc_Status pc"
  "Name (pc_ObjectMeta (SetFinalizers pc fs)) = Name (pc_ObjectMeta pc)"
  "Namespace (pc_ObjectMeta (SetFinalizers pc fs)) = Namespace (pc_ObjectMeta pc)"
  "DeletionTimestamp (pc_ObjectMeta (SetFinalizers pc fs)) = DeletionTimestamp (pc_ObjectMeta pc)"
  by (simp_all add: SetFinalizers_def)

lemma setStatus_simps [simp]:
  "pc_Status (projectClaim (setStatus c st)) = st"
  "pc_Spec (projectClaim (setStatus c st)) = pc_Spec (projectClaim c)"
  "pc_ObjectMeta (projectClaim (setStatus c st)) = pc_ObjectMeta (projectClaim c)"
  "client (setStatus c st) = client c"
  "projectReference (setStatus c st) = projectReference c"
  by (simp_all add: setStatus_def)

lemma answer_setStatus [simp]: "answer (setStatus c st) pre x = answer c pre x"
  by (simp add: answer_def)

lemma setConditions_simps [simp]:
  "Conditions (pc_Status (projectClaim (setConditions c cs))) = cs"
  "State (pc_Status (projectClaim (setConditions c cs))) = State (pc_Status (projectClaim c))"
  "pc_Spec (projectClaim (setConditions c cs)) = pc_Spec (projectClaim c)"
  "pc_ObjectMeta (projectClaim (setConditions c cs)) = pc_ObjectMeta (projectClaim c)"
  "client (setConditions c cs) = client c"
  "projectReference (setConditions c cs) = projectReference c"
  by (simp_all add: setConditions_def)

lemma StatusUpdate_eq:
  "StatusUpdate c = (answer c [] (CallStatusUpdate (projectClaim c)), sent c [CallStatusUpdate (projectClaim c)])"
  by (simp add: StatusUpdate_def call_client_eq split: option.splits)

lemma StatusUpdate_projectClaim [simp]: "projectClaim (snd (StatusUpdate c)) = projectClaim c"
  by (simp add: StatusUpdate_eq)

lemma phases_distinct:
  "ClaimStatusPending \<noteq> ''''" "ClaimStatusPendingProject \<noteq> ''''"
  "ClaimStatusPending \<noteq> ClaimStatusPendingProject"
  by (simp_all add: ClaimStatusPending_def ClaimStatusPendingProject_def)

lemma exampleAdapter_simps:
  "projectClaim (exampleAdapter fs store) = exampleClaim ''team'' ''claim'' fs"
  "history (client (exampleAdapter fs store)) = []"
  "respond (client (exampleAdapter fs store)) = store"
  "GetFinalizers (exampleClaim ns n fs) = fs"
  "GetName (exampleClaim ns n fs) = n"
  "GetNamespace (exampleClaim ns n fs) = ns"
  "pc_Status (exampleClaim ns n fs) = \<lparr>State = '''', Conditions = None\<rparr>"
  "IsProjectReferenceDeletion (exampleAdapter fs store) = False"
  "IsProjectClaimDeletion (exampleAdapter fs store) = True"
  "answer (exampleAdapter fs store) pre x = store pre x"
  "lookupResult (exampleAdapter fs store)
     = store [] (CallGet (referenceKey (projectReference (exampleAdapter fs store))))"
  by (simp_all add: exampleAdapter_def NewCustomResourceAdapter_def exampleClaim_def
        GetFinalizers_def GetName_def GetNamespace_def IsProjectReferenceDeletion_def IsProjectClaimDeletion_def
        newMatchingProjectReference_def answer_def lookupResult_def)

lemma exampleAdapter_conditions:
  "errorConditions (exampleClaim ns n fs) = []"
  by (simp add: errorConditions_def exampleAdapter_simps)

text \<open>
  An adapter built by \<open>NewCustomResourceAdapter\<close> holds a reference it has derived itself;
  its deletion timestamp is never set, whatever the store holds.
\<close>

lemma NewCustomResourceAdapter_no_reference_deletion:
  "\<not> IsProjectReferenceDeletion (NewCustomResourceAdapter ns pc cl)"
  by (simp add: IsProjectReferenceDeletion_def NewCustomResourceAdapter_def
        newMatchingProjectReference_def)

section \<open>Existence check\<close>

lemma ProjectReferenceExists_eq:
  "ProjectReferenceExists c =
     ((case lookupResult c of None \<Rightarrow> (True, None)
       | Some err \<Rightarrow> if IsNotFound err then (False, None) else (False, Some err)),
      sent c [CallGet (referenceKey (projectReference c))])"
  by (simp add: ProjectReferenceExists_def call_client_eq lookupResult_def split: option.splits)

text \<open>
  Claim C9. \<open>ProjectReferenceExists\<close> answers \<open>(True, nil)\<close> when the lookup succeeds,
  \<open>(False, nil)\<close> when the lookup fails with the not-found error, and \<open>False\<close> together
  with the error itself for any other failure; it answers \<open>True\<close> only when the lookup
  succeeded.
\<close>

theorem ProjectReferenceExists_maps_lookup:
  "(lookupResult c = None \<longrightarrow> fst (ProjectReferenceExists c) = (True, None))
   \<and> (\<forall>err. lookupResult c = Some err \<and> IsNotFound err \<longrightarrow> fst (ProjectReferenceExists c) = (False, None))
   \<and> (\<forall>err. lookupResult c = Some err \<and> \<not> IsNotFound err \<longrightarrow> fst (ProjectReferenceExists c) = (False, Some err))
   \<and> (fst (fst (ProjectReferenceExists c)) \<longrightarrow> lookupResult c = None)"
  by (auto simp add: ProjectReferenceExists_eq split: option.splits)

theorem ProjectReferenceExists_maps_lookup_witness:
  "lookupResult (exampleAdapter [] storeHealthy) = None
   \<and> fst (ProjectReferenceExists (exampleAdapter [] storeHealthy)) = (True, None)
   \<and> lookupResult (exampleAdapter [] storeGone) = Some NotFound \<and> IsNotFound NotFound
   \<and> fst (ProjectReferenceExists (exampleAdapter [] storeGone)) = (False, None)
   \<and> lookupResult (exampleAdapter [] storeDown) = Some (Transient ''timeout'')
   \<and> \<not> IsNotFound (Transient ''timeout'')
   \<and> fst (ProjectReferenceExists (exampleAdapter [] storeDown)) = (False, Some (Transient ''timeout''))"
proof -
  have h: "lookupResult (exampleAdapter [] storeHealthy) = None"
    and g: "lookupResult (exampleAdapter [] storeGone) = Some NotFound"
    and d: "lookupResult (exampleAdapter [] storeDown) = Some (Transient ''timeout'')"
    by (simp_all add: exampleAdapter_simps)
  have "fst (ProjectReferenceExists (exampleAdapter [] storeHealthy)) = (True, None)"
    using h ProjectReferenceExists_maps_lookup [of "exampleAdapter [] storeHealthy"] by blast
  moreover have "fst (ProjectReferenceExists (exampleAdapter [] storeGone)) = (False, None)"
    using g ProjectReferenceExists_maps_lookup [of "exampleAdapter [] storeGone"]
      IsNotFound.simps(1) by blast
  moreover have "fst (ProjectReferenceExists (exampleAdapter [] storeDown))
                   = (False, Some (Transient ''timeout''))"
    using d ProjectReferenceExists_maps_lookup [of "exampleAdapter [] storeDown"]
      IsNotFound.simps(3) by blast
  ultimately show ?thesis using h g d by simp
qed

section \<open>Finalizer\<close>

lemma EnsureFinalizerDeleted_present:
  "Contains (GetFinalizers (projectClaim c)) ProjectClaimFinalizer \<Longrightarrow>
   pc = SetFinalizers (projectClaim c) (Filter (GetFinalizers (projectClaim c)) ProjectClaimFinalizer) \<Longrightarrow>
   EnsureFinalizerDeleted c = (answer c [] (CallUpdate pc), sent (c\<lparr>projectClaim := pc\<rparr>) [CallUpdate pc])"
  by (simp add: EnsureFinalizerDeleted_def call_client_eq Let_def answer_def sent_def)

lemma EnsureFinalizerDeleted_absent:
  "\<not> Contains (GetFinalizers (projectClaim c)) ProjectClaimFinalizer \<Longrightarrow> EnsureFinalizerDeleted c = (None, c)"
  by (simp add: EnsureFinalizerDeleted_def)

lemma EnsureFinalizerDeleted_finalizers:
  "GetFinalizers (projectClaim (snd (EnsureFinalizerDeleted c)))
     = Filter (GetFinalizers (projectClaim c)) ProjectClaimFinalizer"
proof (cases "Contains (GetFinalizers (projectClaim c)) ProjectClaimFinalizer")
  case True
  then show ?thesis by (simp add: EnsureFinalizerDeleted_present)
next
  case False
  then have "filter (\<lambda>item. item \<noteq> ProjectClaimFinalizer) (GetFinalizers (projectClaim c))
               = GetFinalizers (projectClaim c)"
    by (auto simp add: Contains_iff filter_id_conv)
  with False show ?thesis by (simp add: EnsureFinalizerDeleted_absent Filter_eq)
qed

text \<open>
  Claim C8. After \<open>EnsureFinalizerDeleted\<close> the finalizers of the claim are exactly the
  former ones other than the tracked marker, in their order, whether or not the update
  that follows succeeds; spec and status of the claim are untouched. When the tracked
  marker is absent the call changes nothing and sends nothing to the store.
\<close>

theorem EnsureFinalizerDeleted_preserves_others:
  "GetFinalizers (projectClaim (snd (EnsureFinalizerDeleted c)))
     = filter (\<lambda>f. f \<noteq> ProjectClaimFinalizer) (GetFinalizers (projectClaim c))
   \<and> pc_Spec (projectClaim (snd (EnsureFinalizerDeleted c))) = pc_Spec (projectClaim c)
   \<and> pc_Status (projectClaim (snd (EnsureFinalizerDeleted c))) = pc_Status (projectClaim c)
   \<and> (\<not> Contains (GetFinalizers (projectClaim c)) ProjectClaimFinalizer \<longrightarrow>
         EnsureFinalizerDeleted c = (None, c))"
proof -
  have "pc_Spec (projectClaim (snd (EnsureFinalizerDeleted c))) = pc_Spec (projectClaim c)
      \<and> pc_Status (projectClaim (snd (EnsureFinalizerDeleted c))) = pc_Status (projectClaim c)"
    by (cases "Contains (GetFinalizers (projectClaim c)) ProjectClaimFinalizer")
       (simp_all add: EnsureFinalizerDeleted_present EnsureFinalizerDeleted_absent)
  then show ?thesis
    by (simp add: EnsureFinalizerDeleted_finalizers Filter_eq EnsureFinalizerDeleted_absent)
qed

theorem EnsureFinalizerDeleted_preserves_others_witness:
  "GetFinalizers (projectClaim (snd (EnsureFinalizerDeleted
       (exampleAdapter [''A'', ProjectClaimFinalizer] storeHealthy)))) = [''A'']
   \<and> \<not> Contains (GetFinalizers (projectClaim (exampleAdapter [''A''] storeHealthy))) ProjectClaimFinalizer
   \<and> EnsureFinalizerDeleted (exampleAdapter [''A''] storeHealthy)
       = (None, exampleAdapter [''A''] storeHealthy)"
proof -
  have a: "\<not> Contains (GetFinalizers (projectClaim (exampleAdapter [''A''] storeHealthy))) ProjectClaimFinalizer"
    by (simp add: exampleAdapter_simps ProjectClaimFinalizer_def)
  have b: "GetFinalizers (projectClaim (exampleAdapter [''A'', ProjectClaimFinalizer] storeHealthy))
             = [''A'', ProjectClaimFinalizer]"
    by (simp add: exampleAdapter_def exampleClaim_def NewCustomResourceAdapter_def GetFinalizers_def)
  have c: "''A'' \<noteq> ProjectClaimFinalizer" by (simp add: ProjectClaimFinalizer_def)
  from a b c
    EnsureFinalizerDeleted_preserves_others [of "exampleAdapter [''A'', ProjectClaimFinalizer] storeHealthy"]
    EnsureFinalizerDeleted_preserves_others [of "exampleAdapter [''A''] storeHealthy"]
  show ?thesis by simp
qed

lemma EnsureFinalizer_absent:
  "\<not> Contains (GetFinalizers (projectClaim c)) ProjectClaimFinalizer \<Longrightarrow>
   pc = SetFinalizers (projectClaim c) (GetFinalizers (projectClaim c) @ [ProjectClaimFinalizer]) \<Longrightarrow>
   EnsureFinalizer c =
     ((case answer c [] (CallUpdate pc) of
         None \<Rightarrow> (ObjectModified, None) | Some err \<Rightarrow> (ObjectUnchanged, Some err)),
      sent (c\<lparr>projectClaim := pc\<rparr>) [CallUpdate pc])"
  by (simp add: EnsureFinalizer_def call_client_eq Let_def answer_def sent_def split: option.splits)

lemma EnsureFinalizer_present:
  "Contains (GetFinalizers (projectClaim c)) ProjectClaimFinalizer \<Longrightarrow>
   EnsureFinalizer c = ((ObjectUnchanged, None), c)"
  by (simp add: EnsureFinalizer_def)

text \<open>
  Claim C7, as amended. For a claim that lacks the tracked marker, the first of two calls
  of \<open>EnsureFinalizer\<close> appends the marker and sends one update; it reports
  \<open>ObjectModified\<close> when that update succeeds and \<open>ObjectUnchanged\<close> with the error
  when it fails. Either way the second call reports \<open>ObjectUnchanged\<close>, sends nothing and
  leaves the adapter, hence the finalizers, as the first call left them. When the marker
  is already present the call is a no-op reporting \<open>ObjectUnchanged\<close>.
\<close>

theorem EnsureFinalizer_twice:
  assumes "\<not> Contains (GetFinalizers (projectClaim c)) ProjectClaimFinalizer"
    and "EnsureFinalizer c = (r1, c1)"
    and "EnsureFinalizer c1 = (r2, c2)"
  shows "GetFinalizers (projectClaim c1) = GetFinalizers (projectClaim c) @ [ProjectClaimFinalizer]
     \<and> history (client c1) = history (client c) @ [CallUpdate (projectClaim c1)]
     \<and> (answer c [] (CallUpdate (projectClaim c1)) = None \<longrightarrow> r1 = (ObjectModified, None))
     \<and> (\<forall>err. answer c [] (CallUpdate (projectClaim c1)) = Some err \<longrightarrow>
           r1 = (ObjectUnchanged, Some err))
     \<and> r2 = (ObjectUnchanged, None)
     \<and> c2 = c1
     \<and> (Contains (GetFinalizers (projectClaim d)) ProjectClaimFinalizer \<longrightarrow>
           EnsureFinalizer d = ((ObjectUnchanged, None), d))"
proof -
  let ?pc = "SetFinalizers (projectClaim c) (GetFinalizers (projectClaim c) @ [ProjectClaimFinalizer])"
  from assms(1,2) have c1: "c1 = sent (c\<lparr>projectClaim := ?pc\<rparr>) [CallUpdate ?pc]"
    and r1: "r1 = (case answer c [] (CallUpdate ?pc) of
                     None \<Rightarrow> (ObjectModified, None) | Some err \<Rightarrow> (ObjectUnchanged, Some err))"
    by (simp_all add: EnsureFinalizer_absent)
  have pc1: "projectClaim c1 = ?pc" by (simp add: c1)
  have "Contains (GetFinalizers (projectClaim c1)) ProjectClaimFinalizer"
    by (simp add: pc1 Contains_iff)
  with assms(3) have "r2 = (ObjectUnchanged, None)" "c2 = c1"
    by (simp_all add: EnsureFinalizer_present)
  moreover have "history (client c1) = history (client c) @ [CallUpdate (projectClaim c1)]"
    by (simp add: c1)
  ultimately show ?thesis
    using r1 by (simp add: pc1 EnsureFinalizer_present)
qed

theorem EnsureFinalizer_twice_witness:
  "\<not> Contains (GetFinalizers (projectClaim (exampleAdapter [''A''] storeHealthy))) ProjectClaimFinalizer
   \<and> fst (EnsureFinalizer (exampleAdapter [''A''] storeHealthy)) = (ObjectModified, None)
   \<and> fst (EnsureFinalizer (snd (EnsureFinalizer (exampleAdapter [''A''] storeHealthy))))
       = (ObjectUnchanged, None)
   \<and> GetFinalizers (projectClaim (snd (EnsureFinalizer (exampleAdapter [''A''] storeHealthy))))
       = [''A'', ProjectClaimFinalizer]
   \<and> snd (EnsureFinalizer (snd (EnsureFinalizer (exampleAdapter [''A''] storeHealthy))))
       = snd (EnsureFinalizer (exampleAdapter [''A''] storeHealthy))
   \<and> Contains (GetFinalizers (projectClaim (exampleAdapter [ProjectClaimFinalizer] storeHealthy)))
        ProjectClaimFinalizer
   \<and> EnsureFinalizer (exampleAdapter [ProjectClaimFinalizer] storeHealthy)
       = ((ObjectUnchanged, None), exampleAdapter [ProjectClaimFinalizer] storeHealthy)"
proof -
  let ?c = "exampleAdapter [''A''] storeHealthy"
  let ?d = "exampleAdapter [ProjectClaimFinalizer] storeHealthy"
  have a: "\<not> Contains (GetFinalizers (projectClaim ?c)) ProjectClaimFinalizer"
    and d: "Contains (GetFinalizers (projectClaim ?d)) ProjectClaimFinalizer"
    by (simp_all add: exampleAdapter_simps ProjectClaimFinalizer_def)
  have ok: "answer ?c [] x = None" for x
    by (simp add: exampleAdapter_simps)
  from EnsureFinalizer_twice [OF a surjective_pairing surjective_pairing, of ?d] a d ok
  show ?thesis
    by (simp add: exampleAdapter_simps prod_eq_iff)
qed

text \<open>
  As stated, without the proviso on the update, the property fails: with a store that
  rejects the update the first call reports \<open>ObjectUnchanged\<close>.
\<close>

theorem EnsureFinalizer_twice_counterexample:
  "\<not> Contains (GetFinalizers (projectClaim (exampleAdapter [] storeConflict))) ProjectClaimFinalizer
   \<and> fst (EnsureFinalizer (exampleAdapter [] storeConflict)) = (ObjectUnchanged, Some Conflict)"
  by (simp add: exampleAdapter_simps EnsureFinalizer_absent [OF _ refl] ProjectClaimFinalizer_def)

section \<open>Deletion\<close>

lemma FinalizeProjectClaim_exists:
  assumes "lookupResult c = None" and "\<not> IsProjectReferenceDeletion c"
  shows "FinalizeProjectClaim c =
     ((ObjectUnchanged,
       answer c [CallGet (referenceKey (projectReference c))] (CallDelete (projectReference c))),
      sent c [CallGet (referenceKey (projectReference c)), CallDelete (projectReference c)])"
  using assms
  by (simp add: FinalizeProjectClaim_def ProjectReferenceExists_eq call_client_eq
        split: option.splits)

lemma FinalizeProjectClaim_gone:
  assumes "lookupResult c = Some e" and "IsNotFound e"
  shows "FinalizeProjectClaim c =
     (case EnsureFinalizerDeleted (sent c [CallGet (referenceKey (projectReference c))]) of
        (Some err, c3) \<Rightarrow> ((ObjectUnchanged, Some err), c3)
      | (None, c3) \<Rightarrow> ((ObjectModified, None), c3))"
  using assms
  by (simp add: FinalizeProjectClaim_def ProjectReferenceExists_eq split: option.splits)

lemma FinalizeProjectClaim_gone_absent:
  assumes "lookupResult c = Some e" and "IsNotFound e"
    and "\<not> Contains (GetFinalizers (projectClaim c)) ProjectClaimFinalizer"
  shows "FinalizeProjectClaim c =
     ((ObjectModified, None), sent c [CallGet (referenceKey (projectReference c))])"
  using assms by (simp add: FinalizeProjectClaim_gone EnsureFinalizerDeleted_absent)

lemma FinalizeProjectClaim_gone_present:
  assumes "lookupResult c = Some e" and "IsNotFound e"
    and "Contains (GetFinalizers (projectClaim c)) ProjectClaimFinalizer"
    and "pc = SetFinalizers (projectClaim c) (Filter (GetFinalizers (projectClaim c)) ProjectClaimFinalizer)"
    and "k = CallGet (referenceKey (projectReference c))"
  shows "FinalizeProjectClaim c =
     ((case answer c [k] (CallUpdate pc) of
         None \<Rightarrow> (ObjectModified, None) | Some err \<Rightarrow> (ObjectUnchanged, Some err)),
      sent (c\<lparr>projectClaim := pc\<rparr>) [k, CallUpdate pc])"
proof -
  let ?c1 = "sent c [k]"
  have "EnsureFinalizerDeleted ?c1 =
          (answer ?c1 [] (CallUpdate pc), sent (?c1\<lparr>projectClaim := pc\<rparr>) [CallUpdate pc])"
    using assms(3,4) by (intro EnsureFinalizerDeleted_present) simp_all
  moreover have "sent (?c1\<lparr>projectClaim := pc\<rparr>) [CallUpdate pc]
                   = sent (c\<lparr>projectClaim := pc\<rparr>) [k, CallUpdate pc]"
    by (simp add: sent_def)
  ultimately show ?thesis
    using assms(1,2,5) by (simp add: FinalizeProjectClaim_gone split: option.splits)
qed

text \<open>
  Claim C1, as amended. When the reference exists and the adapter's reference carries no
  deletion timestamp, \<open>FinalizeProjectClaim\<close> sends the lookup and then a delete of the
  reference, leaves the claim (and so its finalizers) as it was and reports
  \<open>ObjectUnchanged\<close>, together with whatever the delete answered. On a following call
  whose lookup answers not-found the tracked marker is removed from the claim held by the
  adapter. If the marker was absent, nothing but the lookup is sent and the call reports
  \<open>ObjectModified\<close>. If it was present, one update of the claim is sent: the call
  reports \<open>ObjectModified\<close> without error when the update succeeds, and
  \<open>ObjectUnchanged\<close> together with the error of the update when it fails.
\<close>

theorem FinalizeProjectClaim_deletion_ordering:
  assumes "lookupResult c = None" and "\<not> IsProjectReferenceDeletion c"
    and "FinalizeProjectClaim c = (r1, c1)"
    and "lookupResult c1 = Some e" and "IsNotFound e"
    and "FinalizeProjectClaim c1 = (r2, c2)"
  shows "history (client c1)
           = history (client c) @ [CallGet (referenceKey (projectReference c)),
                                   CallDelete (projectReference c)]
     \<and> projectClaim c1 = projectClaim c
     \<and> r1 = (ObjectUnchanged,
             answer c [CallGet (referenceKey (projectReference c))] (CallDelete (projectReference c)))
     \<and> GetFinalizers (projectClaim c2) = Filter (GetFinalizers (projectClaim c)) ProjectClaimFinalizer
     \<and> \<not> Contains (GetFinalizers (projectClaim c2)) ProjectClaimFinalizer
     \<and> (\<not> Contains (GetFinalizers (projectClaim c)) ProjectClaimFinalizer \<longrightarrow>
           r2 = (ObjectModified, None)
           \<and> history (client c2)
               = history (client c1) @ [CallGet (referenceKey (projectReference c))])
     \<and> (Contains (GetFinalizers (projectClaim c)) ProjectClaimFinalizer \<longrightarrow>
           history (client c2)
             = history (client c1) @ [CallGet (referenceKey (projectReference c)),
                                      CallUpdate (projectClaim c2)]
           \<and> (answer c1 [CallGet (referenceKey (projectReference c))]
                 (CallUpdate (projectClaim c2)) = None \<longrightarrow> r2 = (ObjectModified, None))
           \<and> (\<forall>err. answer c1 [CallGet (referenceKey (projectReference c))]
                        (CallUpdate (projectClaim c2)) = Some err \<longrightarrow>
                  r2 = (ObjectUnchanged, Some err)))"
proof -
  from assms(1-3) have c1: "c1 = sent c [CallGet (referenceKey (projectReference c)),
                                        CallDelete (projectReference c)]"
    and r1: "r1 = (ObjectUnchanged,
               answer c [CallGet (referenceKey (projectReference c))] (CallDelete (projectReference c)))"
    by (auto simp add: FinalizeProjectClaim_exists)
  have pc1: "projectClaim c1 = projectClaim c" and pr1: "projectReference c1 = projectReference c"
    and h1: "history (client c1)
               = history (client c) @ [CallGet (referenceKey (projectReference c)),
                                       CallDelete (projectReference c)]"
    by (simp_all add: c1)
  show ?thesis
  proof (cases "Contains (GetFinalizers (projectClaim c1)) ProjectClaimFinalizer")
    case False
    from FinalizeProjectClaim_gone_absent [OF assms(4,5) False] assms(6)
    have "r2 = (ObjectModified, None)"
      and "c2 = sent c1 [CallGet (referenceKey (projectReference c1))]"
      by auto
    with False r1 h1 show ?thesis
      by (simp add: pc1 pr1 Filter_absent)
  next
    case True
    let ?pc = "SetFinalizers (projectClaim c1)
                 (Filter (GetFinalizers (projectClaim c1)) ProjectClaimFinalizer)"
    from FinalizeProjectClaim_gone_present [OF assms(4,5) True refl refl] assms(6)
    have c2: "c2 = sent (c1\<lparr>projectClaim := ?pc\<rparr>)
                     [CallGet (referenceKey (projectReference c1)), CallUpdate ?pc]"
      and r2: "r2 = (case answer c1 [CallGet (referenceKey (projectReference c1))] (CallUpdate ?pc) of
                 None \<Rightarrow> (ObjectModified, None) | Some err \<Rightarrow> (ObjectUnchanged, Some err))"
      by auto
    have pc2: "projectClaim c2 = ?pc"
      and h2: "history (client c2)
                 = history (client c1) @ [CallGet (referenceKey (projectReference c1)), CallUpdate ?pc]"
      by (simp_all add: c2)
    from True r1 h1 r2 h2 show ?thesis
      by (simp add: pc2 pc1 pr1 not_Contains_Filter)
  qed
qed

theorem FinalizeProjectClaim_deletion_ordering_witness:
  "lookupResult (exampleAdapter [''A'', ProjectClaimFinalizer] storeDeleting) = None
   \<and> \<not> IsProjectReferenceDeletion (exampleAdapter [''A'', ProjectClaimFinalizer] storeDeleting)
   \<and> lookupResult (snd (FinalizeProjectClaim
        (exampleAdapter [''A'', ProjectClaimFinalizer] storeDeleting))) = Some NotFound
   \<and> IsNotFound NotFound
   \<and> history (client (snd (FinalizeProjectClaim
        (exampleAdapter [''A'', ProjectClaimFinalizer] storeDeleting))))
       = [CallGet (referenceKey (projectReference
            (exampleAdapter [''A'', ProjectClaimFinalizer] storeDeleting))),
          CallDelete (projectReference (exampleAdapter [''A'', ProjectClaimFinalizer] storeDeleting))]
   \<and> GetFinalizers (projectClaim (snd (FinalizeProjectClaim
        (exampleAdapter [''A'', ProjectClaimFinalizer] storeDeleting))))
       = [''A'', ProjectClaimFinalizer]
   \<and> fst (FinalizeProjectClaim (exampleAdapter [''A'', ProjectClaimFinalizer] storeDeleting))
       = (ObjectUnchanged, None)
   \<and> GetFinalizers (projectClaim (snd (FinalizeProjectClaim (snd (FinalizeProjectClaim
        (exampleAdapter [''A'', ProjectClaimFinalizer] storeDeleting)))))) = [''A'']
   \<and> fst (FinalizeProjectClaim (snd (FinalizeProjectClaim
        (exampleAdapter [''A'', ProjectClaimFinalizer] storeDeleting)))) = (ObjectModified, None)
   \<and> lookupResult (exampleAdapter [''A'', ProjectClaimFinalizer] storeDeletingConflict) = None
   \<and> lookupResult (snd (FinalizeProjectClaim
        (exampleAdapter [''A'', ProjectClaimFinalizer] storeDeletingConflict))) = Some NotFound
   \<and> GetFinalizers (projectClaim (snd (FinalizeProjectClaim (snd (FinalizeProjectClaim
        (exampleAdapter [''A'', ProjectClaimFinalizer] storeDeletingConflict)))))) = [''A'']
   \<and> fst (FinalizeProjectClaim (snd (FinalizeProjectClaim
        (exampleAdapter [''A'', ProjectClaimFinalizer] storeDeletingConflict))))
       = (ObjectUnchanged, Some Conflict)
   \<and> lookupResult (exampleAdapter [''A''] storeDeleting) = None
   \<and> lookupResult (snd (FinalizeProjectClaim (exampleAdapter [''A''] storeDeleting)))
       = Some NotFound
   \<and> fst (FinalizeProjectClaim (snd (FinalizeProjectClaim (exampleAdapter [''A''] storeDeleting))))
       = (ObjectModified, None)"
proof -
  have n: "IsNotFound NotFound" by simp
  have f: "\<not> IsProjectReferenceDeletion (exampleAdapter fs store)" for fs store
    by (simp add: exampleAdapter_simps)
  have l: "lookupResult (exampleAdapter fs storeDeleting) = None"
    and l': "lookupResult (exampleAdapter fs storeDeletingConflict) = None" for fs
    by (simp_all add: exampleAdapter_simps)
  have c1: "snd (FinalizeProjectClaim (exampleAdapter fs storeDeleting))
              = sent (exampleAdapter fs storeDeleting)
                  [CallGet (referenceKey (projectReference (exampleAdapter fs storeDeleting))),
                   CallDelete (projectReference (exampleAdapter fs storeDeleting))]"
    and c1': "snd (FinalizeProjectClaim (exampleAdapter fs storeDeletingConflict))
              = sent (exampleAdapter fs storeDeletingConflict)
                  [CallGet (referenceKey (projectReference (exampleAdapter fs storeDeletingConflict))),
                   CallDelete (projectReference (exampleAdapter fs storeDeletingConflict))]" for fs
    by (simp_all add: FinalizeProjectClaim_exists [OF l f] FinalizeProjectClaim_exists [OF l' f])
  have l1: "lookupResult (snd (FinalizeProjectClaim (exampleAdapter fs storeDeleting)))
              = Some NotFound"
    and l1': "lookupResult (snd (FinalizeProjectClaim (exampleAdapter fs storeDeletingConflict)))
              = Some NotFound" for fs
    by (simp_all add: c1 c1' lookupResult_def exampleAdapter_simps)
  have ok: "answer (snd (FinalizeProjectClaim (exampleAdapter fs storeDeleting)))
              [CallGet k] (CallUpdate pc) = None"
    and ko: "answer (snd (FinalizeProjectClaim (exampleAdapter fs storeDeletingConflict)))
              [CallGet k] (CallUpdate pc) = Some Conflict"
    and dl: "answer (exampleAdapter fs storeDeleting) [CallGet k] (CallDelete r) = None"
    for fs k pc r
    by (simp_all add: c1 c1' exampleAdapter_simps)
  let ?c = "exampleAdapter [''A'', ProjectClaimFinalizer] storeDeleting"
  let ?c1 = "snd (FinalizeProjectClaim ?c)"
  let ?c2 = "snd (FinalizeProjectClaim ?c1)"
  from FinalizeProjectClaim_deletion_ordering
         [OF l f surjective_pairing l1 n surjective_pairing, of "[''A'', ProjectClaimFinalizer]"]
       ok dl
  have A: "history (client ?c1)
          = [CallGet (referenceKey (projectReference ?c)), CallDelete (projectReference ?c)]"
    "GetFinalizers (projectClaim ?c1) = [''A'', ProjectClaimFinalizer]"
    "fst (FinalizeProjectClaim ?c) = (ObjectUnchanged, None)"
    "GetFinalizers (projectClaim ?c2) = [''A'']"
    "fst (FinalizeProjectClaim ?c1) = (ObjectModified, None)"
    by (auto simp add: exampleAdapter_simps ProjectClaimFinalizer_def prod_eq_iff)
  let ?d = "exampleAdapter [''A'', ProjectClaimFinalizer] storeDeletingConflict"
  let ?d1 = "snd (FinalizeProjectClaim ?d)"
  let ?d2 = "snd (FinalizeProjectClaim ?d1)"
  from FinalizeProjectClaim_deletion_ordering
         [OF l' f surjective_pairing l1' n surjective_pairing, of "[''A'', ProjectClaimFinalizer]"]
       ko
  have B: "GetFinalizers (projectClaim ?d2) = [''A'']"
    "fst (FinalizeProjectClaim ?d1) = (ObjectUnchanged, Some Conflict)"
    by (auto simp add: exampleAdapter_simps ProjectClaimFinalizer_def prod_eq_iff)
  from FinalizeProjectClaim_deletion_ordering
         [OF l f surjective_pairing l1 n surjective_pairing, of "[''A'']"]
  have C: "fst (FinalizeProjectClaim (snd (FinalizeProjectClaim (exampleAdapter [''A''] storeDeleting))))
             = (ObjectModified, None)"
    by (auto simp add: exampleAdapter_simps ProjectClaimFinalizer_def prod_eq_iff)
  from A B C l l' l1 l1' n f show ?thesis by simp
qed

text \<open>
  As stated, with \<open>ObjectModified\<close> on every following call whose lookup answers
  not-found, the property fails when the store rejects the update of the claim.
\<close>

theorem FinalizeProjectClaim_deletion_ordering_counterexample:
  "lookupResult (exampleAdapter [ProjectClaimFinalizer] storeDeletingConflict) = None
   \<and> \<not> IsProjectReferenceDeletion (exampleAdapter [ProjectClaimFinalizer] storeDeletingConflict)
   \<and> lookupResult (snd (FinalizeProjectClaim
        (exampleAdapter [ProjectClaimFinalizer] storeDeletingConflict))) = Some NotFound
   \<and> fst (FinalizeProjectClaim (snd (FinalizeProjectClaim
        (exampleAdapter [ProjectClaimFinalizer] storeDeletingConflict))))
       = (ObjectUnchanged, Some Conflict)"
proof -
  let ?c = "exampleAdapter [ProjectClaimFinalizer] storeDeletingConflict"
  let ?c1 = "sent ?c [CallGet (referenceKey (projectReference ?c)), CallDelete (projectReference ?c)]"
  have l: "lookupResult ?c = None" and f: "\<not> IsProjectReferenceDeletion ?c"
    by (simp_all add: exampleAdapter_simps)
  from FinalizeProjectClaim_exists [OF l f] have c1: "snd (FinalizeProjectClaim ?c) = ?c1"
    by simp
  have l1: "lookupResult ?c1 = Some NotFound"
    by (simp add: lookupResult_def exampleAdapter_simps)
  have p1: "Contains (GetFinalizers (projectClaim ?c1)) ProjectClaimFinalizer"
    by (simp add: exampleAdapter_simps ProjectClaimFinalizer_def)
  from FinalizeProjectClaim_gone_present [OF l1 _ p1 refl refl]
  have "fst (FinalizeProjectClaim ?c1) = (ObjectUnchanged, Some Conflict)"
    by (simp add: exampleAdapter_simps)
  with l f l1 show ?thesis by (simp add: c1)
qed

text \<open>
  Claim C3, as amended. When the lookup answers not-found, \<open>FinalizeProjectClaim\<close> leaves
  the claim without the tracked marker. If the marker was absent, nothing is changed and
  nothing but the lookup is sent, and the call still reports \<open>ObjectModified\<close>. If the
  marker was present, one update of the claim is sent; the call reports
  \<open>ObjectModified\<close> when the update succeeds and \<open>ObjectUnchanged\<close> with the error of
  the update when it fails.
\<close>

theorem FinalizeProjectClaim_reference_gone:
  assumes "lookupResult c = Some e" and "IsNotFound e"
  shows "GetFinalizers (projectClaim (snd (FinalizeProjectClaim c)))
           = Filter (GetFinalizers (projectClaim c)) ProjectClaimFinalizer
     \<and> \<not> Contains (GetFinalizers (projectClaim (snd (FinalizeProjectClaim c)))) ProjectClaimFinalizer
     \<and> (\<not> Contains (GetFinalizers (projectClaim c)) ProjectClaimFinalizer \<longrightarrow>
          FinalizeProjectClaim c
            = ((ObjectModified, None), sent c [CallGet (referenceKey (projectReference c))]))
     \<and> (Contains (GetFinalizers (projectClaim c)) ProjectClaimFinalizer \<longrightarrow>
          history (client (snd (FinalizeProjectClaim c)))
            = history (client c) @ [CallGet (referenceKey (projectReference c)),
                                    CallUpdate (projectClaim (snd (FinalizeProjectClaim c)))]
          \<and> (snd (fst (FinalizeProjectClaim c)) = None \<longrightarrow>
                fst (fst (FinalizeProjectClaim c)) = ObjectModified)
          \<and> (snd (fst (FinalizeProjectClaim c)) \<noteq> None \<longrightarrow>
                fst (fst (FinalizeProjectClaim c)) = ObjectUnchanged)
          \<and> snd (fst (FinalizeProjectClaim c))
              = answer c [CallGet (referenceKey (projectReference c))]
                  (CallUpdate (projectClaim (snd (FinalizeProjectClaim c)))))"
proof (cases "Contains (GetFinalizers (projectClaim c)) ProjectClaimFinalizer")
  case False
  with assms show ?thesis
    by (simp add: FinalizeProjectClaim_gone_absent Filter_absent)
next
  case True
  with assms show ?thesis
    by (simp add: FinalizeProjectClaim_gone_present [OF assms True refl refl]
          not_Contains_Filter split: option.splits)
qed

theorem FinalizeProjectClaim_reference_gone_witness:
  "lookupResult (exampleAdapter [''A'', ProjectClaimFinalizer] storeGone) = Some NotFound
   \<and> IsNotFound NotFound
   \<and> GetFinalizers (projectClaim (snd (FinalizeProjectClaim
        (exampleAdapter [''A'', ProjectClaimFinalizer] storeGone)))) = [''A'']
   \<and> fst (FinalizeProjectClaim (exampleAdapter [''A'', ProjectClaimFinalizer] storeGone))
       = (ObjectModified, None)"
proof -
  let ?c = "exampleAdapter [''A'', ProjectClaimFinalizer] storeGone"
  have l: "lookupResult ?c = Some NotFound"
    and p: "Contains (GetFinalizers (projectClaim ?c)) ProjectClaimFinalizer"
    by (simp_all add: exampleAdapter_simps ProjectClaimFinalizer_def)
  have n: "IsNotFound NotFound" by simp
  have ok: "answer ?c [CallGet k] (CallUpdate pc) = None" for k pc
    by (simp add: exampleAdapter_simps)
  from FinalizeProjectClaim_reference_gone [OF l n] p ok l show ?thesis
    by (simp add: exampleAdapter_simps ProjectClaimFinalizer_def prod_eq_iff)
qed

text \<open>
  As stated, with \<open>ObjectUnchanged\<close> when the marker was not present, the property fails:
  a claim without finalizers whose reference is gone gets \<open>ObjectModified\<close> although the
  claim is unchanged.
\<close>

theorem FinalizeProjectClaim_reference_gone_counterexample:
  "IsProjectClaimDeletion (exampleAdapter [] storeGone)
   \<and> lookupResult (exampleAdapter [] storeGone) = Some NotFound
   \<and> \<not> Contains (GetFinalizers (projectClaim (exampleAdapter [] storeGone))) ProjectClaimFinalizer
   \<and> projectClaim (snd (FinalizeProjectClaim (exampleAdapter [] storeGone)))
       = projectClaim (exampleAdapter [] storeGone)
   \<and> fst (FinalizeProjectClaim (exampleAdapter [] storeGone)) = (ObjectModified, None)"
proof -
  have l: "lookupResult (exampleAdapter [] storeGone) = Some NotFound"
    and a: "\<not> Contains (GetFinalizers (projectClaim (exampleAdapter [] storeGone))) ProjectClaimFinalizer"
    by (simp_all add: exampleAdapter_simps)
  from FinalizeProjectClaim_gone_absent [OF l _ a] l a show ?thesis
    by (simp add: exampleAdapter_simps)
qed

section \<open>Phase\<close>

text \<open>
  Claim C2. \<open>EnsureProjectClaimState\<close> with target \<open>Pending\<close> writes the phase (and
  sends a status update) when the phase is empty and otherwise changes and sends nothing;
  with target \<open>PendingProject\<close> it writes when the phase is \<open>Pending\<close> and otherwise
  changes and sends nothing. In particular a claim in phase \<open>PendingProject\<close> stays
  there under target \<open>Pending\<close>.
\<close>

theorem EnsureProjectClaimState_monotonic:
  "(State (pc_Status (projectClaim c)) \<noteq> '''' \<longrightarrow>
      EnsureProjectClaimState c ClaimStatusPending = (None, c))
   \<and> (State (pc_Status (projectClaim c)) = '''' \<longrightarrow>
      State (pc_Status (projectClaim (snd (EnsureProjectClaimState c ClaimStatusPending))))
        = ClaimStatusPending
      \<and> history (client (snd (EnsureProjectClaimState c ClaimStatusPending)))
        = history (client c)
          @ [CallStatusUpdate (projectClaim (snd (EnsureProjectClaimState c ClaimStatusPending)))])
   \<and> (State (pc_Status (projectClaim c)) \<noteq> ClaimStatusPending \<longrightarrow>
      EnsureProjectClaimState c ClaimStatusPendingProject = (None, c))
   \<and> (State (pc_Status (projectClaim c)) = ClaimStatusPending \<longrightarrow>
      State (pc_Status (projectClaim (snd (EnsureProjectClaimState c ClaimStatusPendingProject))))
        = ClaimStatusPendingProject
      \<and> history (client (snd (EnsureProjectClaimState c ClaimStatusPendingProject)))
        = history (client c)
          @ [CallStatusUpdate (projectClaim (snd (EnsureProjectClaimState c ClaimStatusPendingProject)))])
   \<and> (State (pc_Status (projectClaim c)) = ClaimStatusPendingProject \<longrightarrow>
      EnsureProjectClaimState c ClaimStatusPending = (None, c)
      \<and> State (pc_Status (projectClaim (snd (EnsureProjectClaimState c ClaimStatusPending))))
        = ClaimStatusPendingProject)"
  using phases_distinct
  by (simp add: EnsureProjectClaimState_def StatusUpdate_eq)

theorem EnsureProjectClaimState_monotonic_witness:
  "State (pc_Status (projectClaim (exampleAdapter [] storeHealthy))) = ''''
   \<and> State (pc_Status (projectClaim
        (snd (EnsureProjectClaimState (exampleAdapter [] storeHealthy) ClaimStatusPending))))
       = ClaimStatusPending
   \<and> State (pc_Status (projectClaim
        (snd (EnsureProjectClaimState
           (snd (EnsureProjectClaimState (exampleAdapter [] storeHealthy) ClaimStatusPending))
           ClaimStatusPendingProject))))
       = ClaimStatusPendingProject
   \<and> EnsureProjectClaimState
        (snd (EnsureProjectClaimState
           (snd (EnsureProjectClaimState (exampleAdapter [] storeHealthy) ClaimStatusPending))
           ClaimStatusPendingProject))
        ClaimStatusPending
       = (None,
          snd (EnsureProjectClaimState
           (snd (EnsureProjectClaimState (exampleAdapter [] storeHealthy) ClaimStatusPending))
           ClaimStatusPendingProject))
   \<and> EnsureProjectClaimState (exampleAdapter [] storeHealthy) ClaimStatusPendingProject
       = (None, exampleAdapter [] storeHealthy)"
proof -
  let ?c0 = "exampleAdapter [] storeHealthy"
  let ?c1 = "snd (EnsureProjectClaimState ?c0 ClaimStatusPending)"
  let ?c2 = "snd (EnsureProjectClaimState ?c1 ClaimStatusPendingProject)"
  have s0: "State (pc_Status (projectClaim ?c0)) = ''''"
    by (simp add: exampleAdapter_def exampleClaim_def NewCustomResourceAdapter_def)
  from s0 EnsureProjectClaimState_monotonic [of ?c0]
  have s1: "State (pc_Status (projectClaim ?c1)) = ClaimStatusPending"
    and n0: "EnsureProjectClaimState ?c0 ClaimStatusPendingProject = (None, ?c0)"
    by (simp_all add: ClaimStatusPending_def)
  from s1 EnsureProjectClaimState_monotonic [of ?c1]
  have s2: "State (pc_Status (projectClaim ?c2)) = ClaimStatusPendingProject"
    by simp
  from s2 EnsureProjectClaimState_monotonic [of ?c2]
  have n2: "EnsureProjectClaimState ?c2 ClaimStatusPending = (None, ?c2)"
    by simp
  from s0 s1 s2 n0 n2 show ?thesis by simp
qed

section \<open>Persist failure\<close>

text \<open>
  Claim C10. When the store rejects the update, \<open>EnsureFinalizer\<close> (on a claim without
  the marker), \<open>EnsureProjectClaimInitialized\<close> (on a claim whose condition list is
  \<^verbatim>\<open>nil\<close>) and \<open>EnsureProjectReferenceLink\<close> (on a claim whose link differs from the
  reference) each return \<open>ObjectUnchanged\<close> with the error, while the claim held by the
  adapter already has the marker appended, the empty condition list, or the new link.
\<close>

theorem persist_failure_not_atomic:
  "(\<not> Contains (GetFinalizers (projectClaim c)) ProjectClaimFinalizer
      \<and> answer c [] (CallUpdate (SetFinalizers (projectClaim c)
            (GetFinalizers (projectClaim c) @ [ProjectClaimFinalizer]))) = Some err
    \<longrightarrow> fst (EnsureFinalizer c) = (ObjectUnchanged, Some err)
        \<and> GetFinalizers (projectClaim (snd (EnsureFinalizer c)))
            = GetFinalizers (projectClaim c) @ [ProjectClaimFinalizer])
   \<and> (Conditions (pc_Status (projectClaim c)) = None
      \<and> answer c [] (CallStatusUpdate ((projectClaim c)\<lparr>pc_Status :=
            (pc_Status (projectClaim c))\<lparr>Conditions := Some []\<rparr>\<rparr>)) = Some err
    \<longrightarrow> fst (EnsureProjectClaimInitialized c) = (ObjectUnchanged, Some err)
        \<and> Conditions (pc_Status (projectClaim (snd (EnsureProjectClaimInitialized c)))) = Some [])
   \<and> (pcs_ProjectReferenceCRLink (pc_Spec (projectClaim c)) \<noteq> referenceKey (projectReference c)
      \<and> answer c [] (CallUpdate ((projectClaim c)\<lparr>pc_Spec :=
            (pc_Spec (projectClaim c))\<lparr>pcs_ProjectReferenceCRLink :=
               referenceKey (projectReference c)\<rparr>\<rparr>)) = Some err
    \<longrightarrow> fst (EnsureProjectReferenceLink c) = (ObjectUnchanged, Some err)
        \<and> pcs_ProjectReferenceCRLink (pc_Spec (projectClaim (snd (EnsureProjectReferenceLink c))))
            = referenceKey (projectReference c))"
proof (intro conjI impI)
  assume "\<not> Contains (GetFinalizers (projectClaim c)) ProjectClaimFinalizer
      \<and> answer c [] (CallUpdate (SetFinalizers (projectClaim c)
            (GetFinalizers (projectClaim c) @ [ProjectClaimFinalizer]))) = Some err"
  then show "fst (EnsureFinalizer c) = (ObjectUnchanged, Some err)"
    and "GetFinalizers (projectClaim (snd (EnsureFinalizer c)))
            = GetFinalizers (projectClaim c) @ [ProjectClaimFinalizer]"
    by (simp_all add: EnsureFinalizer_absent)
next
  assume "Conditions (pc_Status (projectClaim c)) = None
      \<and> answer c [] (CallStatusUpdate ((projectClaim c)\<lparr>pc_Status :=
            (pc_Status (projectClaim c))\<lparr>Conditions := Some []\<rparr>\<rparr>)) = Some err"
  then show "fst (EnsureProjectClaimInitialized c) = (ObjectUnchanged, Some err)"
    and "Conditions (pc_Status (projectClaim (snd (EnsureProjectClaimInitialized c)))) = Some []"
    by (simp_all add: EnsureProjectClaimInitialized_def setConditions_def setStatus_def
          call_client_eq answer_def sent_def)
next
  assume "pcs_ProjectReferenceCRLink (pc_Spec (projectClaim c)) \<noteq> referenceKey (projectReference c)
      \<and> answer c [] (CallUpdate ((projectClaim c)\<lparr>pc_Spec :=
            (pc_Spec (projectClaim c))\<lparr>pcs_ProjectReferenceCRLink :=
               referenceKey (projectReference c)\<rparr>\<rparr>)) = Some err"
  then show "fst (EnsureProjectReferenceLink c) = (ObjectUnchanged, Some err)"
    and "pcs_ProjectReferenceCRLink (pc_Spec (projectClaim (snd (EnsureProjectReferenceLink c))))
            = referenceKey (projectReference c)"
    by (simp_all add: EnsureProjectReferenceLink_def Let_def call_client_eq answer_def sent_def)
qed

theorem persist_failure_not_atomic_witness:
  "\<not> Contains (GetFinalizers (projectClaim (exampleAdapter [''A''] storeConflict))) ProjectClaimFinalizer
   \<and> fst (EnsureFinalizer (exampleAdapter [''A''] storeConflict)) = (ObjectUnchanged, Some Conflict)
   \<and> GetFinalizers (projectClaim (snd (EnsureFinalizer (exampleAdapter [''A''] storeConflict))))
       = [''A'', ProjectClaimFinalizer]
   \<and> Conditions (pc_Status (projectClaim (exampleAdapter [''A''] storeConflict))) = None
   \<and> fst (EnsureProjectClaimInitialized (exampleAdapter [''A''] storeConflict))
       = (ObjectUnchanged, Some Conflict)
   \<and> Conditions (pc_Status (projectClaim (snd (EnsureProjectClaimInitialized
        (exampleAdapter [''A''] storeConflict))))) = Some []
   \<and> pcs_ProjectReferenceCRLink (pc_Spec (projectClaim (exampleAdapter [''A''] storeConflict)))
       \<noteq> referenceKey (projectReference (exampleAdapter [''A''] storeConflict))
   \<and> fst (EnsureProjectReferenceLink (exampleAdapter [''A''] storeConflict))
       = (ObjectUnchanged, Some Conflict)
   \<and> pcs_ProjectReferenceCRLink (pc_Spec (projectClaim (snd (EnsureProjectReferenceLink
        (exampleAdapter [''A''] storeConflict)))))
       = \<lparr>nn_Name = ''team-claim'', nn_Namespace = ''gcp-project-operator''\<rparr>"
proof -
  let ?c = "exampleAdapter [''A''] storeConflict"
  have a: "\<not> Contains (GetFinalizers (projectClaim ?c)) ProjectClaimFinalizer"
    by (simp add: exampleAdapter_simps ProjectClaimFinalizer_def)
  have b: "Conditions (pc_Status (projectClaim ?c)) = None"
    by (simp add: exampleAdapter_simps)
  have k: "referenceKey (projectReference ?c)
             = \<lparr>nn_Name = ''team-claim'', nn_Namespace = ''gcp-project-operator''\<rparr>"
    by (simp add: exampleAdapter_def NewCustomResourceAdapter_def newMatchingProjectReference_def
          referenceKey_def exampleAdapter_simps)
  have l: "pcs_ProjectReferenceCRLink (pc_Spec (projectClaim ?c)) \<noteq> referenceKey (projectReference ?c)"
    by (simp add: k) (simp add: exampleAdapter_simps exampleClaim_def)
  have u: "answer ?c [] (CallUpdate pc) = Some Conflict"
    and v: "answer ?c [] (CallStatusUpdate pc) = Some Conflict" for pc
    by (simp_all add: exampleAdapter_simps)
  from persist_failure_not_atomic [of ?c Conflict] a b l u v
  have "fst (EnsureFinalizer ?c) = (ObjectUnchanged, Some Conflict)"
    and "GetFinalizers (projectClaim (snd (EnsureFinalizer ?c)))
           = GetFinalizers (projectClaim ?c) @ [ProjectClaimFinalizer]"
    and "fst (EnsureProjectClaimInitialized ?c) = (ObjectUnchanged, Some Conflict)"
    and "Conditions (pc_Status (projectClaim (snd (EnsureProjectClaimInitialized ?c)))) = Some []"
    and "fst (EnsureProjectReferenceLink ?c) = (ObjectUnchanged, Some Conflict)"
    and "pcs_ProjectReferenceCRLink (pc_Spec (projectClaim (snd (EnsureProjectReferenceLink ?c))))
           = referenceKey (projectReference ?c)"
    by blast+
  with a b l show ?thesis
    by (simp add: k) (simp add: exampleAdapter_simps)
qed

section \<open>Conditions\<close>

lemma findFrom_None: "findFrom k xs = None \<longleftrightarrow> filter (\<lambda>e. cond_Type e = ClaimConditionError) xs = []"
  by (induction xs arbitrary: k) auto

lemma findFrom_Some:
  "findFrom k xs = Some j \<Longrightarrow>
     k \<le> j \<and> j - k < length xs \<and> cond_Type (xs ! (j - k)) = ClaimConditionError"
proof (induction xs arbitrary: k)
  case Nil
  then show ?case by simp
next
  case (Cons x xs)
  show ?case
  proof (cases "cond_Type x = ClaimConditionError")
    case True
    with Cons.prems show ?thesis by simp
  next
    case False
    with Cons.prems have "findFrom (Suc k) xs = Some j" by simp
    from Cons.IH [OF this]
    have "Suc k \<le> j" "j - Suc k < length xs" "cond_Type (xs ! (j - Suc k)) = ClaimConditionError"
      by simp_all
    moreover from \<open>Suc k \<le> j\<close> have "j - k = Suc (j - Suc k)" by simp
    ultimately show ?thesis by simp
  qed
qed

lemma findFrom_update:
  "findFrom k xs = Some j \<Longrightarrow> cond_Type y = ClaimConditionError \<Longrightarrow>
     findFrom k (xs[j - k := y]) = Some j"
proof (induction xs arbitrary: k)
  case Nil
  then show ?case by simp
next
  case (Cons x xs)
  show ?case
  proof (cases "cond_Type x = ClaimConditionError")
    case True
    with Cons.prems show ?thesis by simp
  next
    case False
    with Cons.prems have f: "findFrom (Suc k) xs = Some j" by simp
    from findFrom_Some [OF f] have "j - k = Suc (j - Suc k)" by auto
    with Cons.IH [OF f Cons.prems(2)] False show ?thesis by simp
  qed
qed

lemma filter_single_nth:
  "length (filter P xs) \<le> 1 \<Longrightarrow> i < length xs \<Longrightarrow> P (xs ! i) \<Longrightarrow> filter P xs = [xs ! i]"
proof (induction xs arbitrary: i)
  case Nil
  then show ?case by simp
next
  case (Cons x xs)
  show ?case
  proof (cases i)
    case 0
    with Cons.prems show ?thesis by simp
  next
    case (Suc m)
    with Cons.prems have m: "m < length xs" "P (xs ! m)" by simp_all
    then have "filter P xs \<noteq> []" by (auto simp add: filter_empty_conv)
    with Cons.prems(1) have "\<not> P x" "length (filter P xs) \<le> 1"
      by (auto split: if_splits)
    with Cons.IH [OF _ m] Suc show ?thesis by simp
  qed
qed

lemma filter_single_update:
  assumes "length (filter P xs) \<le> 1" and "i < length xs" and "P (xs ! i)" and "P y"
  shows "filter P (xs[i := y]) = [y]"
  using assms
proof (induction xs arbitrary: i)
  case Nil
  then show ?case by simp
next
  case (Cons x xs)
  show ?case
  proof (cases i)
    case 0
    with Cons.prems show ?thesis by (simp split: if_splits)
  next
    case (Suc m)
    with Cons.prems have m: "m < length xs" "P (xs ! m)" by simp_all
    then have "filter P xs \<noteq> []" by (auto simp add: filter_empty_conv)
    with Cons.prems(1) have "\<not> P x" "length (filter P xs) \<le> 1"
      by (auto split: if_splits)
    with Cons.IH [OF _ m Cons.prems(4)] Suc show ?thesis by simp
  qed
qed

lemma SetProjectClaimCondition_conditions:
  "Conditions (pc_Status (projectClaim (snd (SetProjectClaimCondition c status reason message now)))) =
     (case FindProjectClaimCondition c of
        None \<Rightarrow> if status = ConditionTrue
                then Some (elems (Conditions (pc_Status (projectClaim c))) @
                       [\<lparr>cond_Type = ClaimConditionError, cond_Status = status, cond_Reason = reason,
                         cond_Message = message, cond_LastTransitionTime = now,
                         cond_LastProbeTime = now\<rparr>])
                else Conditions (pc_Status (projectClaim c))
      | Some i \<Rightarrow> Some ((elems (Conditions (pc_Status (projectClaim c))))
                   [i := updatedCondition (elems (Conditions (pc_Status (projectClaim c))) ! i)
                           status reason message now]))"
  by (simp add: SetProjectClaimCondition_def Let_def updatedCondition_def split: option.splits)

lemma SetProjectClaimCondition_slot:
  assumes "length (errorConditions (projectClaim c)) \<le> 1"
  shows "errorConditions (projectClaim (snd (SetProjectClaimCondition c status reason message now))) =
     (case errorConditions (projectClaim c) of
        [] \<Rightarrow> if status = ConditionTrue
              then [\<lparr>cond_Type = ClaimConditionError, cond_Status = status, cond_Reason = reason,
                     cond_Message = message, cond_LastTransitionTime = now,
                     cond_LastProbeTime = now\<rparr>]
              else []
      | e # _ \<Rightarrow> [updatedCondition e status reason message now])"
proof (cases "FindProjectClaimCondition c")
  case None
  then have "errorConditions (projectClaim c) = []"
    by (simp add: FindProjectClaimCondition_def errorConditions_def findFrom_None)
  with None show ?thesis
    by (simp add: errorConditions_def [of "projectClaim (snd _)"] SetProjectClaimCondition_conditions)
       (simp add: errorConditions_def)
next
  case (Some i)
  let ?xs = "elems (Conditions (pc_Status (projectClaim c)))"
  let ?P = "\<lambda>e. cond_Type e = ClaimConditionError"
  from Some have "findFrom 0 ?xs = Some i" by (simp add: FindProjectClaimCondition_def)
  from findFrom_Some [OF this] have i: "i < length ?xs" "?P (?xs ! i)" by simp_all
  from assms have le: "length (filter ?P ?xs) \<le> 1" by (simp add: errorConditions_def)
  have single: "errorConditions (projectClaim c) = [?xs ! i]"
    using filter_single_nth [OF le i] by (simp add: errorConditions_def)
  have "?P (updatedCondition (?xs ! i) status reason message now)"
    using i(2) by (simp add: updatedCondition_def)
  from filter_single_update [OF le i this] Some single show ?thesis
    by (simp add: errorConditions_def [of "projectClaim (snd _)"] SetProjectClaimCondition_conditions)
qed

text \<open>
  Claim C6. Starting from a condition list with at most one entry of the tracked kind,
  two calls of \<open>SetProjectClaimCondition\<close> with status \<open>ConditionTrue\<close> leave exactly
  one such entry, after the first call and after the second; the entry carries the
  reason and message of the second call and the transition time it had after the first.
  For any adapter \<open>d\<close>, a call whose status differs from the status of the entry found
  sets the transition time of that entry to the time of the call.
\<close>

theorem SetProjectClaimCondition_single_slot:
  assumes "length (errorConditions (projectClaim c)) \<le> 1"
    and "SetProjectClaimCondition c ConditionTrue reason1 message1 now1 = (r1, c1)"
    and "SetProjectClaimCondition c1 ConditionTrue reason2 message2 now2 = (r2, c2)"
  shows "length (errorConditions (projectClaim c1)) = 1
     \<and> length (errorConditions (projectClaim c2)) = 1
     \<and> map cond_Status (errorConditions (projectClaim c2)) = [ConditionTrue]
     \<and> map cond_Reason (errorConditions (projectClaim c2)) = [reason2]
     \<and> map cond_Message (errorConditions (projectClaim c2)) = [message2]
     \<and> map cond_LastTransitionTime (errorConditions (projectClaim c2))
         = map cond_LastTransitionTime (errorConditions (projectClaim c1))
     \<and> (\<forall>i. FindProjectClaimCondition d = Some i
             \<and> cond_Status (elems (Conditions (pc_Status (projectClaim d))) ! i) \<noteq> status
           \<longrightarrow> FindProjectClaimCondition (snd (SetProjectClaimCondition d status reason message now)) = Some i
             \<and> cond_LastTransitionTime
                 (elems (Conditions (pc_Status (projectClaim
                    (snd (SetProjectClaimCondition d status reason message now))))) ! i) = now)"
proof -
  from assms(2) have c1: "c1 = snd (SetProjectClaimCondition c ConditionTrue reason1 message1 now1)"
    by simp
  from assms(3) have c2: "c2 = snd (SetProjectClaimCondition c1 ConditionTrue reason2 message2 now2)"
    by simp
  obtain e1 where e1: "errorConditions (projectClaim c1) = [e1]" "cond_Status e1 = ConditionTrue"
    unfolding c1 SetProjectClaimCondition_slot [OF assms(1)]
    by (cases "errorConditions (projectClaim c)") (simp_all add: updatedCondition_def)
  then have "length (errorConditions (projectClaim c1)) \<le> 1" by simp
  from SetProjectClaimCondition_slot [OF this, of ConditionTrue reason2 message2 now2] e1
  have e2: "errorConditions (projectClaim c2) = [updatedCondition e1 ConditionTrue reason2 message2 now2]"
    by (simp add: c2)
  have flip: "FindProjectClaimCondition (snd (SetProjectClaimCondition d status reason message now)) = Some i
             \<and> cond_LastTransitionTime
                 (elems (Conditions (pc_Status (projectClaim
                    (snd (SetProjectClaimCondition d status reason message now))))) ! i) = now"
    if f: "FindProjectClaimCondition d = Some i"
      and s: "cond_Status (elems (Conditions (pc_Status (projectClaim d))) ! i) \<noteq> status" for i
  proof -
    let ?xs = "elems (Conditions (pc_Status (projectClaim d)))"
    from f have ff: "findFrom 0 ?xs = Some i" by (simp add: FindProjectClaimCondition_def)
    from findFrom_Some [OF ff] have i: "i < length ?xs" "cond_Type (?xs ! i) = ClaimConditionError"
      by simp_all
    then have "cond_Type (updatedCondition (?xs ! i) status reason message now) = ClaimConditionError"
      by (simp add: updatedCondition_def)
    from findFrom_update [OF ff this] i(1) s f show ?thesis
      by (simp add: FindProjectClaimCondition_def [of "snd _"] SetProjectClaimCondition_conditions
            updatedCondition_def)
  qed
  from e1 e2 flip show ?thesis
    by (simp add: updatedCondition_def)
qed

theorem SetProjectClaimCondition_single_slot_witness:
  "length (errorConditions (projectClaim (exampleAdapter [] storeHealthy))) \<le> 1
   \<and> length (errorConditions (projectClaim (snd (SetProjectClaimCondition
        (snd (SetProjectClaimCondition (exampleAdapter [] storeHealthy)
                ConditionTrue ''QuotaExceeded'' ''first'' 10))
        ConditionTrue ''BillingDisabled'' ''second'' 20)))) = 1
   \<and> map cond_Reason (errorConditions (projectClaim (snd (SetProjectClaimCondition
        (snd (SetProjectClaimCondition (exampleAdapter [] storeHealthy)
                ConditionTrue ''QuotaExceeded'' ''first'' 10))
        ConditionTrue ''BillingDisabled'' ''second'' 20)))) = [''BillingDisabled'']
   \<and> map cond_Message (errorConditions (projectClaim (snd (SetProjectClaimCondition
        (snd (SetProjectClaimCondition (exampleAdapter [] storeHealthy)
                ConditionTrue ''QuotaExceeded'' ''first'' 10))
        ConditionTrue ''BillingDisabled'' ''second'' 20)))) = [''second'']
   \<and> map cond_LastTransitionTime (errorConditions (projectClaim (snd (SetProjectClaimCondition
        (snd (SetProjectClaimCondition (exampleAdapter [] storeHealthy)
                ConditionTrue ''QuotaExceeded'' ''first'' 10))
        ConditionTrue ''BillingDisabled'' ''second'' 20)))) = [10]
   \<and> FindProjectClaimCondition (snd (SetProjectClaimCondition (exampleAdapter [] storeHealthy)
        ConditionTrue ''QuotaExceeded'' ''first'' 10)) = Some 0
   \<and> cond_Status (elems (Conditions (pc_Status (projectClaim
        (snd (SetProjectClaimCondition (exampleAdapter [] storeHealthy)
                ConditionTrue ''QuotaExceeded'' ''first'' 10))))) ! 0) \<noteq> ConditionFalse
   \<and> cond_LastTransitionTime (elems (Conditions (pc_Status (projectClaim
        (snd (SetProjectClaimCondition
           (snd (SetProjectClaimCondition (exampleAdapter [] storeHealthy)
                   ConditionTrue ''QuotaExceeded'' ''first'' 10))
           ConditionFalse ''Resolved'' ''gone'' 30))))) ! 0) = 30"
proof -
  let ?c = "exampleAdapter [] storeHealthy"
  let ?c1 = "snd (SetProjectClaimCondition ?c ConditionTrue ''QuotaExceeded'' ''first'' 10)"
  let ?c2 = "snd (SetProjectClaimCondition ?c1 ConditionTrue ''BillingDisabled'' ''second'' 20)"
  let ?c3 = "snd (SetProjectClaimCondition ?c1 ConditionFalse ''Resolved'' ''gone'' 30)"
  have h: "length (errorConditions (projectClaim ?c)) \<le> 1"
    by (simp add: exampleAdapter_simps exampleAdapter_conditions)
  have conds1: "Conditions (pc_Status (projectClaim ?c1))
      = Some [\<lparr>cond_Type = ClaimConditionError, cond_Status = ConditionTrue,
           cond_Reason = ''QuotaExceeded'', cond_Message = ''first'',
           cond_LastTransitionTime = 10, cond_LastProbeTime = 10\<rparr>]"
    by (simp add: SetProjectClaimCondition_conditions FindProjectClaimCondition_def
          exampleAdapter_simps)
  have f1: "FindProjectClaimCondition ?c1 = Some 0"
    by (simp add: FindProjectClaimCondition_def conds1)
  have s1: "cond_Status (elems (Conditions (pc_Status (projectClaim ?c1))) ! 0) \<noteq> ConditionFalse"
    by (simp add: conds1)
  note T = SetProjectClaimCondition_single_slot
             [OF h surjective_pairing surjective_pairing,
              of "''QuotaExceeded''" "''first''" 10 "''BillingDisabled''" "''second''" 20
                 ?c1 ConditionFalse "''Resolved''" "''gone''" 30]
  have e1: "errorConditions (projectClaim ?c1)
      = [\<lparr>cond_Type = ClaimConditionError, cond_Status = ConditionTrue,
           cond_Reason = ''QuotaExceeded'', cond_Message = ''first'',
           cond_LastTransitionTime = 10, cond_LastProbeTime = 10\<rparr>]"
    by (simp add: errorConditions_def conds1)
  from T f1 s1 have l3: "cond_LastTransitionTime (elems (Conditions (pc_Status (projectClaim ?c3))) ! 0) = 30"
    by blast
  from T e1 h f1 s1 l3 show ?thesis by simp
qed

text \<open>
  Claim C4, as amended. On a claim without an entry of the tracked kind,
  \<open>SetProjectClaimCondition\<close> with a status other than \<open>ConditionTrue\<close> creates no
  entry and leaves the claim as it is, but it still sends one status update of the
  unchanged claim to the store and returns what the store answers.
\<close>

theorem SetProjectClaimCondition_negative_absent:
  assumes "errorConditions (projectClaim c) = []" and "status \<noteq> ConditionTrue"
  shows "projectClaim (snd (SetProjectClaimCondition c status reason message now)) = projectClaim c
     \<and> errorConditions (projectClaim (snd (SetProjectClaimCondition c status reason message now))) = []
     \<and> history (client (snd (SetProjectClaimCondition c status reason message now)))
         = history (client c) @ [CallStatusUpdate (projectClaim c)]
     \<and> fst (SetProjectClaimCondition c status reason message now)
         = answer c [] (CallStatusUpdate (projectClaim c))"
proof -
  from assms(1) have "FindProjectClaimCondition c = None"
    by (simp add: FindProjectClaimCondition_def errorConditions_def findFrom_None)
  with assms show ?thesis
    by (simp add: SetProjectClaimCondition_def StatusUpdate_eq)
qed

theorem SetProjectClaimCondition_negative_absent_witness:
  "errorConditions (projectClaim (exampleAdapter [] storeConflict)) = []
   \<and> ConditionFalse \<noteq> ConditionTrue
   \<and> projectClaim (snd (SetProjectClaimCondition (exampleAdapter [] storeConflict)
        ConditionFalse ''Resolved'' ''no error'' 5))
       = projectClaim (exampleAdapter [] storeConflict)
   \<and> history (client (snd (SetProjectClaimCondition (exampleAdapter [] storeConflict)
        ConditionFalse ''Resolved'' ''no error'' 5)))
       = [CallStatusUpdate (projectClaim (exampleAdapter [] storeConflict))]
   \<and> fst (SetProjectClaimCondition (exampleAdapter [] storeConflict)
        ConditionFalse ''Resolved'' ''no error'' 5) = Some Conflict"
proof -
  have e: "errorConditions (projectClaim (exampleAdapter [] storeConflict)) = []"
    by (simp add: exampleAdapter_simps exampleAdapter_conditions)
  have s: "ConditionFalse \<noteq> ConditionTrue" by simp
  from SetProjectClaimCondition_negative_absent
         [OF e s, of "''Resolved''" "''no error''" 5] e
  show ?thesis by (simp add: exampleAdapter_simps)
qed

text \<open>
  As stated, with no call to the store, the property fails: the status update is sent.
\<close>

theorem SetProjectClaimCondition_negative_absent_counterexample:
  "errorConditions (projectClaim (exampleAdapter [] storeHealthy)) = []
   \<and> history (client (exampleAdapter [] storeHealthy)) = []
   \<and> history (client (snd (SetProjectClaimCondition (exampleAdapter [] storeHealthy)
        ConditionFalse ''Resolved'' ''no error'' 5)))
       = [CallStatusUpdate (projectClaim (exampleAdapter [] storeHealthy))]"
  by (simp add: exampleAdapter_conditions exampleAdapter_simps SetProjectClaimCondition_def
        FindProjectClaimCondition_def StatusUpdate_eq)

section \<open>Naming\<close>

lemma dash_split:
  "x \<notin> set a \<Longrightarrow> x \<notin> set c \<Longrightarrow> a @ x # b = c @ x # d \<Longrightarrow> a = c \<and> b = d"
proof (induction a arbitrary: c)
  case Nil
  then show ?case by (cases c) auto
next
  case (Cons y a)
  then show ?case by (cases c) auto
qed

text \<open>
  The key of the derived reference depends on the claim only through its namespace and
  name, and two claims with the same derived key have the same namespace and name when
  their namespaces have the same length, when neither namespace contains the separator
  \<open>-\<close>, or when neither name contains it.
\<close>

lemma newMatchingProjectReference_key_cases:
  "(GetNamespace p = GetNamespace q \<and> GetName p = GetName q \<longrightarrow>
      referenceKey (newMatchingProjectReference ns p) = referenceKey (newMatchingProjectReference ns q))
   \<and> (referenceKey (newMatchingProjectReference ns p) = referenceKey (newMatchingProjectReference ns q)
      \<and> (length (GetNamespace p) = length (GetNamespace q)
           \<or> CHR ''-'' \<notin> set (GetNamespace p) \<and> CHR ''-'' \<notin> set (GetNamespace q)
           \<or> CHR ''-'' \<notin> set (GetName p) \<and> CHR ''-'' \<notin> set (GetName q))
      \<longrightarrow> GetNamespace p = GetNamespace q \<and> GetName p = GetName q)"
proof -
  have same: "referenceKey (newMatchingProjectReference ns p)
               = referenceKey (newMatchingProjectReference ns q)"
    if "GetNamespace p = GetNamespace q \<and> GetName p = GetName q"
    using that by (simp add: referenceKey_def newMatchingProjectReference_def)
  have inj: "GetNamespace p = GetNamespace q \<and> GetName p = GetName q"
    if k: "referenceKey (newMatchingProjectReference ns p) = referenceKey (newMatchingProjectReference ns q)"
      and a: "length (GetNamespace p) = length (GetNamespace q)
           \<or> CHR ''-'' \<notin> set (GetNamespace p) \<and> CHR ''-'' \<notin> set (GetNamespace q)
           \<or> CHR ''-'' \<notin> set (GetName p) \<and> CHR ''-'' \<notin> set (GetName q)"
  proof -
    from k have eq: "GetNamespace p @ CHR ''-'' # GetName p = GetNamespace q @ CHR ''-'' # GetName q"
      by (simp add: referenceKey_def newMatchingProjectReference_def)
    from a consider "length (GetNamespace p) = length (GetNamespace q)"
      | "CHR ''-'' \<notin> set (GetNamespace p)" "CHR ''-'' \<notin> set (GetNamespace q)"
      | "CHR ''-'' \<notin> set (GetName p)" "CHR ''-'' \<notin> set (GetName q)"
      by blast
    then show ?thesis
    proof cases
      case 1
      with eq show ?thesis by simp
    next
      case 2
      from dash_split [OF 2 eq] show ?thesis .
    next
      case 3
      from eq have "rev (GetNamespace p @ CHR ''-'' # GetName p)
                      = rev (GetNamespace q @ CHR ''-'' # GetName q)"
        by simp
      then have "rev (GetName p) @ CHR ''-'' # rev (GetNamespace p)
                   = rev (GetName q) @ CHR ''-'' # rev (GetNamespace q)"
        by simp
      moreover from 3 have "CHR ''-'' \<notin> set (rev (GetName p))" "CHR ''-'' \<notin> set (rev (GetName q))"
        by simp_all
      ultimately have "rev (GetName p) = rev (GetName q) \<and> rev (GetNamespace p) = rev (GetNamespace q)"
        by (rule dash_split [rotated 2])
      then show ?thesis by simp
    qed
  qed
  from same inj show ?thesis by blast
qed

lemma EnsureProjectReferenceExists_eq:
  "EnsureProjectReferenceExists c =
     (case lookupResult c of
        None \<Rightarrow> (None, sent c [CallGet (referenceKey (projectReference c))])
      | Some err \<Rightarrow>
          if IsNotFound err
          then (answer c [CallGet (referenceKey (projectReference c))] (CallCreate (projectReference c)),
                sent c [CallGet (referenceKey (projectReference c)), CallCreate (projectReference c)])
          else (Some err, sent c [CallGet (referenceKey (projectReference c))]))"
  by (simp add: EnsureProjectReferenceExists_def ProjectReferenceExists_eq call_client_eq
        split: option.splits)

lemma claimAdapter_simps:
  "projectClaim (claimAdapter ns n cl) = exampleClaim ns n [ProjectClaimFinalizer]"
  "client (claimAdapter ns n cl) = cl"
  "referenceKey (projectReference (claimAdapter ns n cl))
     = \<lparr>nn_Name = ns @ ''-'' @ n, nn_Namespace = ''gcp-project-operator''\<rparr>"
  "IsProjectReferenceDeletion (claimAdapter ns n cl) = False"
  by (simp_all add: claimAdapter_def NewCustomResourceAdapter_def newMatchingProjectReference_def
        referenceKey_def IsProjectReferenceDeletion_def exampleAdapter_simps)

text \<open>
  Claim C5. The derivation of the reference key is to be injective: claims with distinct
  namespace and name must not derive the same key. The adapter relies on this, since it
  looks the reference up, skips its creation and deletes it by the key alone. The code
  joins namespace and name with \<open>-\<close>, which both may contain, and so the distinct
  claims \<open>a-b/c\<close> and \<open>a/b-c\<close> derive the same key. On a store that keeps references by
  key, the second claim then finds the reference of the first, creates none of its own,
  and on finalization deletes the reference of the first claim without any error; the
  first claim's lookup answers not-found afterwards.
\<close>

theorem newMatchingProjectReference_collision:
  "(GetNamespace (exampleClaim ''a-b'' ''c'' [ProjectClaimFinalizer]),
    GetName (exampleClaim ''a-b'' ''c'' [ProjectClaimFinalizer]))
     \<noteq> (GetNamespace (exampleClaim ''a'' ''b-c'' [ProjectClaimFinalizer]),
         GetName (exampleClaim ''a'' ''b-c'' [ProjectClaimFinalizer]))
   \<and> referenceKey (newMatchingProjectReference ''gcp-project-operator''
        (exampleClaim ''a-b'' ''c'' [ProjectClaimFinalizer]))
     = referenceKey (newMatchingProjectReference ''gcp-project-operator''
        (exampleClaim ''a'' ''b-c'' [ProjectClaimFinalizer]))
   \<and> fst (FinalizeProjectClaim (claimAdapter ''a'' ''b-c'' afterSecondClaim))
     = (ObjectUnchanged, None)
   \<and> history afterSecondFinalize
     = [CallGet \<lparr>nn_Name = ''a-b-c'', nn_Namespace = ''gcp-project-operator''\<rparr>,
        CallCreate (newMatchingProjectReference ''gcp-project-operator''
          (exampleClaim ''a-b'' ''c'' [ProjectClaimFinalizer])),
        CallGet \<lparr>nn_Name = ''a-b-c'', nn_Namespace = ''gcp-project-operator''\<rparr>,
        CallGet \<lparr>nn_Name = ''a-b-c'', nn_Namespace = ''gcp-project-operator''\<rparr>,
        CallDelete (newMatchingProjectReference ''gcp-project-operator''
          (exampleClaim ''a'' ''b-c'' [ProjectClaimFinalizer]))]
   \<and> fst (ProjectReferenceExists (claimAdapter ''a-b'' ''c'' afterSecondFinalize))
     = (False, None)"
proof -
  let ?k = "\<lparr>nn_Name = ''a-b-c'', nn_Namespace = ''gcp-project-operator''\<rparr>"
  let ?rA = "newMatchingProjectReference ''gcp-project-operator''
               (exampleClaim ''a-b'' ''c'' [ProjectClaimFinalizer])"
  let ?rB = "newMatchingProjectReference ''gcp-project-operator''
               (exampleClaim ''a'' ''b-c'' [ProjectClaimFinalizer])"
  have kA: "referenceKey ?rA = ?k" and kB: "referenceKey ?rB = ?k"
    by (simp_all add: referenceKey_def newMatchingProjectReference_def exampleAdapter_simps)
  have pA: "projectReference (claimAdapter ''a-b'' ''c'' cl) = ?rA"
    and pB: "projectReference (claimAdapter ''a'' ''b-c'' cl) = ?rB" for cl
    by (simp_all add: claimAdapter_def NewCustomResourceAdapter_def)
  have step1: "afterFirstClaim = \<lparr>history = [CallGet ?k, CallCreate ?rA], respond = storeKeyed\<rparr>"
    by (simp add: afterFirstClaim_def keyedClient_def EnsureProjectReferenceExists_eq
          lookupResult_def answer_def sent_def claimAdapter_simps pA kA)
  have step2: "afterSecondClaim
                 = \<lparr>history = [CallGet ?k, CallCreate ?rA, CallGet ?k], respond = storeKeyed\<rparr>"
    by (simp add: afterSecondClaim_def step1 EnsureProjectReferenceExists_eq lookupResult_def
          answer_def sent_def claimAdapter_simps pB kA kB)
  let ?B2 = "claimAdapter ''a'' ''b-c'' afterSecondClaim"
  have l: "lookupResult ?B2 = None"
    by (simp add: step2 lookupResult_def answer_def claimAdapter_simps kA)
  have f: "\<not> IsProjectReferenceDeletion ?B2"
    by (simp add: claimAdapter_simps)
  have step3: "FinalizeProjectClaim ?B2
                 = ((ObjectUnchanged, None), sent ?B2 [CallGet ?k, CallDelete ?rB])"
    by (simp add: FinalizeProjectClaim_exists [OF l f] claimAdapter_simps pB)
       (simp add: step2 answer_def claimAdapter_simps kA kB)
  have step4: "afterSecondFinalize
                 = \<lparr>history = [CallGet ?k, CallCreate ?rA, CallGet ?k, CallGet ?k, CallDelete ?rB],
                    respond = storeKeyed\<rparr>"
    by (simp add: afterSecondFinalize_def step3 sent_def claimAdapter_simps) (simp add: step2)
  have gone: "fst (ProjectReferenceExists (claimAdapter ''a-b'' ''c'' afterSecondFinalize))
                = (False, None)"
    by (simp add: ProjectReferenceExists_eq lookupResult_def answer_def claimAdapter_simps
          step4 kA kB)
  have names: "(GetNamespace (exampleClaim ''a-b'' ''c'' [ProjectClaimFinalizer]),
    GetName (exampleClaim ''a-b'' ''c'' [ProjectClaimFinalizer]))
     \<noteq> (GetNamespace (exampleClaim ''a'' ''b-c'' [ProjectClaimFinalizer]),
         GetName (exampleClaim ''a'' ''b-c'' [ProjectClaimFinalizer]))"
    by (simp add: exampleAdapter_simps)
  from names gone show ?thesis
    by (simp add: step3 step4 kA kB)
qed

end
